theory Spec2Isabelle
  imports Main "HOL-Library.Word"
begin

section \<open>The "before" plugin of slate-react: browser events against the logical document\<close>

text \<open>
  The development embeds \<^verbatim>\<open>packages/slate-react/src/plugins/dom/before.js\<close>:
  the closure variables of \<^verbatim>\<open>BeforePlugin\<close>, its nineteen event handlers, the
  two host-visible operations and \<^verbatim>\<open>flushQueuedNativeOperations\<close>.

  A handler is a function from the state before the event to an outcome: the state
  after it, whether the continuation \<^verbatim>\<open>next()\<close> was invoked, whether
  \<^verbatim>\<open>event.preventDefault()\<close> was called, and the exception thrown, if any. An
  exception keeps the side effects made before the \<^verbatim>\<open>throw\<close>, as in JavaScript.
  What the handlers downstream of \<^verbatim>\<open>next()\<close> do is not part of the outcome.
\<close>

subsection \<open>JavaScript strings\<close>

text \<open>
  A JavaScript string is a sequence of UTF-16 code units; the zero-width placeholder U+FEFF is
  one unit and \<^verbatim>\<open>s.length\<close> counts units.
\<close>

type_synonym jstring = "16 word list"

definition ZERO_WIDTH_CHAR :: "16 word" where
  "ZERO_WIDTH_CHAR = 0xFEFF"

text \<open>\<^verbatim>\<open>s.replace(/[U+FEFF]/g, '')\<close>\<close>

definition strip_zero_width :: "jstring \<Rightarrow> jstring" where
  "strip_zero_width s = filter (\<lambda>c. c \<noteq> ZERO_WIDTH_CHAR) s"

text \<open>\<^verbatim>\<open>s.indexOf(U+FEFF) >= 0\<close>\<close>

definition hasZeroWidthChars :: "jstring \<Rightarrow> bool" where
  "hasZeroWidthChars s = (ZERO_WIDTH_CHAR \<in> set s)"

subsection \<open>The DOM\<close>

text \<open>
  DOM nodes are objects with identity, compared with \<^verbatim>\<open>===\<close>; a reference is a
  number. The DOM is a forest: the tree of the document, which comes first, and the
  subtrees that were detached from it, which the handlers may still hold references to. Only text nodes
  (\<^verbatim>\<open>nodeType 3\<close>) and elements (\<^verbatim>\<open>nodeType 1\<close>) are modelled; an element has
  its \<^verbatim>\<open>tagName\<close>, its attributes and its \<^verbatim>\<open>childNodes\<close>. A reference that
  names no node of the forest has no parent, no attributes and no children.
\<close>

type_synonym ref = nat

datatype dnode =
    DText ref jstring
  | DElem ref string "(string \<times> string) list" "dnode list"

fun ref_of :: "dnode \<Rightarrow> ref" where
  "ref_of (DText r s) = r"
| "ref_of (DElem r t a ks) = r"

fun childNodes :: "dnode \<Rightarrow> dnode list" where
  "childNodes (DText r s) = []"
| "childNodes (DElem r t a ks) = ks"

fun attributes :: "dnode \<Rightarrow> (string \<times> string) list" where
  "attributes (DText r s) = []"
| "attributes (DElem r t a ks) = a"

fun is_element :: "dnode \<Rightarrow> bool" where
  "is_element (DText r s) = False"
| "is_element (DElem r t a ks) = True"

text \<open>\<^verbatim>\<open>node.nodeType === 1 && node.tagName === 'BR'\<close>\<close>

fun is_br :: "dnode \<Rightarrow> bool" where
  "is_br (DText r s) = False"
| "is_br (DElem r t a ks) = (t = ''BR'')"

text \<open>\<^verbatim>\<open>node.textContent\<close>: the text of the node's text descendants, in tree order.\<close>

fun textContent :: "dnode \<Rightarrow> jstring" where
  "textContent (DText r s) = s"
| "textContent (DElem r t a ks) = concat (map textContent ks)"

text \<open>\<^verbatim>\<open>node.hasAttribute(name)\<close>\<close>

definition hasAttribute :: "dnode \<Rightarrow> string \<Rightarrow> bool" where
  "hasAttribute n name = (name \<in> fst ` set (attributes n))"

text \<open>The node a reference names, searched through the forest.\<close>

fun find_node :: "ref \<Rightarrow> dnode \<Rightarrow> dnode option"
  and find_among :: "ref \<Rightarrow> dnode list \<Rightarrow> dnode option" where
  "find_node r (DText i s) = (if i = r then Some (DText i s) else None)"
| "find_node r (DElem i t a ks) =
     (if i = r then Some (DElem i t a ks) else find_among r ks)"
| "find_among r [] = None"
| "find_among r (k # ks) =
     (case find_node r k of Some n \<Rightarrow> Some n | None \<Rightarrow> find_among r ks)"

text \<open>\<^verbatim>\<open>node.parentElement\<close>: the element that has the node among its children.\<close>

fun parent_in :: "ref \<Rightarrow> dnode \<Rightarrow> ref option"
  and parent_among :: "ref \<Rightarrow> dnode list \<Rightarrow> ref option" where
  "parent_in r (DText i s) = None"
| "parent_in r (DElem i t a ks) =
     (if r \<in> set (map ref_of ks) then Some i else parent_among r ks)"
| "parent_among r [] = None"
| "parent_among r (k # ks) =
     (case parent_in r k of Some p \<Rightarrow> Some p | None \<Rightarrow> parent_among r ks)"

definition parentElement :: "dnode list \<Rightarrow> ref \<Rightarrow> ref option" where
  "parentElement forest r = parent_among r forest"

text \<open>
  \<^verbatim>\<open>element.closest(selector)\<close>: the nearest inclusive ancestor of the element that
  the selector matches. The search walks down to the element and remembers the last
  match on the way; \<open>None\<close> when the element is not in the tree, \<open>Some None\<close> when it
  is and nothing matches (\<^verbatim>\<open>null\<close>).
\<close>

fun closest_in :: "(dnode \<Rightarrow> bool) \<Rightarrow> ref \<Rightarrow> ref option \<Rightarrow> dnode \<Rightarrow> ref option option"
  and closest_among ::
    "(dnode \<Rightarrow> bool) \<Rightarrow> ref \<Rightarrow> ref option \<Rightarrow> dnode list \<Rightarrow> ref option option" where
  "closest_in sel r acc (DText i s) = (if i = r then Some acc else None)"
| "closest_in sel r acc (DElem i t a ks) =
     (let acc' = (if sel (DElem i t a ks) then Some i else acc)
      in if i = r then Some acc' else closest_among sel r acc' ks)"
| "closest_among sel r acc [] = None"
| "closest_among sel r acc (k # ks) =
     (case closest_in sel r acc k of Some c \<Rightarrow> Some c | None \<Rightarrow> closest_among sel r acc ks)"

definition closest :: "dnode list \<Rightarrow> (dnode \<Rightarrow> bool) \<Rightarrow> ref \<Rightarrow> ref option" where
  "closest forest sel r =
     (case closest_among sel r None forest of None \<Rightarrow> None | Some c \<Rightarrow> c)"

text \<open>\<^verbatim>\<open>el.contains(other)\<close>: \<open>other\<close> is \<open>el\<close> or one of its descendants.\<close>

definition contains :: "dnode list \<Rightarrow> ref \<Rightarrow> ref \<Rightarrow> bool" where
  "contains forest el other =
     (case find_among el forest of
        None \<Rightarrow> False
      | Some n \<Rightarrow> find_node other n \<noteq> None)"

text \<open>
  \<^verbatim>\<open>element.querySelectorAll(selector)\<close>: a static list of the descendant elements
  the selector matches, in document order; the element itself is not a candidate.
\<close>

fun descendants :: "dnode \<Rightarrow> dnode list" where
  "descendants (DText r s) = []"
| "descendants (DElem r t a ks) = concat (map (\<lambda>k. k # descendants k) ks)"

definition querySelectorAll :: "dnode list \<Rightarrow> ref \<Rightarrow> (dnode \<Rightarrow> bool) \<Rightarrow> ref list" where
  "querySelectorAll forest el sel =
     (case find_among el forest of
        None \<Rightarrow> []
      | Some n \<Rightarrow> map ref_of (filter (\<lambda>d. is_element d \<and> sel d) (descendants n)))"

text \<open>
  A mutation of one node: \<open>f\<close> gives the node after the mutation and the subtrees it
  detached, which join the forest as trees of their own.
\<close>

fun modify_in :: "ref \<Rightarrow> (dnode \<Rightarrow> dnode \<times> dnode list) \<Rightarrow> dnode \<Rightarrow> dnode \<times> dnode list"
  and modify_among ::
    "ref \<Rightarrow> (dnode \<Rightarrow> dnode \<times> dnode list) \<Rightarrow> dnode list \<Rightarrow> dnode list \<times> dnode list" where
  "modify_in r f (DText i s) = (if i = r then f (DText i s) else (DText i s, []))"
| "modify_in r f (DElem i t a ks) =
     (if i = r then f (DElem i t a ks)
      else (case modify_among r f ks of (ks', det) \<Rightarrow> (DElem i t a ks', det)))"
| "modify_among r f [] = ([], [])"
| "modify_among r f (k # ks) =
     (case modify_in r f k of (k', d1) \<Rightarrow>
        (case modify_among r f ks of (ks', d2) \<Rightarrow> (k' # ks', d1 @ d2)))"

definition modify_node ::
    "ref \<Rightarrow> (dnode \<Rightarrow> dnode \<times> dnode list) \<Rightarrow> dnode list \<Rightarrow> dnode list" where
  "modify_node r f forest = (case modify_among r f forest of (forest', det) \<Rightarrow> forest' @ det)"

text \<open>
  \<^verbatim>\<open>for (const childNode of el.childNodes) if (BR) el.removeChild(childNode)\<close>.
  \<^verbatim>\<open>childNodes\<close> is a live list and the iterator reads it by index: after a removal
  the next child has moved into the index just visited, and the iterator steps over it.
  The result is the children that remain and the children removed.
\<close>

function remove_br_from :: "nat \<Rightarrow> dnode list \<Rightarrow> dnode list \<Rightarrow> dnode list \<times> dnode list" where
  "remove_br_from i ks removed =
     (if i < length ks
      then (if is_br (ks ! i)
            then remove_br_from (i + 1) (take i ks @ drop (i + 1) ks) (removed @ [ks ! i])
            else remove_br_from (i + 1) ks removed)
      else (ks, removed))"
  by pat_completeness auto
termination
  by (relation "measure (\<lambda>(i, ks, removed). length ks - i)") auto

definition removeBRChildren :: "dnode \<Rightarrow> dnode \<times> dnode list" where
  "removeBRChildren n =
     (case n of
        DText r s \<Rightarrow> (DText r s, [])
      | DElem r t a ks \<Rightarrow>
          (case remove_br_from 0 ks [] of (ks', removed) \<Rightarrow> (DElem r t a ks', removed)))"

text \<open>
  \<^verbatim>\<open>node.textContent = s\<close>. On a text node it sets the data. On an element it
  replaces the children by one new text node, or by nothing when \<open>s\<close> is empty;
  \<open>fresh\<close> is the reference of the new text node.
\<close>

definition setTextContent :: "ref \<Rightarrow> jstring \<Rightarrow> dnode \<Rightarrow> dnode \<times> dnode list" where
  "setTextContent fresh s n =
     (case n of
        DText r old \<Rightarrow> (DText r s, [])
      | DElem r t a ks \<Rightarrow> (DElem r t a (if s = [] then [] else [DText fresh s]), ks))"

text \<open>\<^verbatim>\<open>element.removeAttribute(name)\<close>\<close>

definition removeAttribute :: "string \<Rightarrow> dnode \<Rightarrow> dnode \<times> dnode list" where
  "removeAttribute name n =
     (case n of
        DText r s \<Rightarrow> (DText r s, [])
      | DElem r t a ks \<Rightarrow> (DElem r t (filter (\<lambda>kv. fst kv \<noteq> name) a) ks, []))"

text \<open>\<^verbatim>\<open>element.textContent\<close> through a reference.\<close>

definition textContentOf :: "dnode list \<Rightarrow> ref \<Rightarrow> jstring" where
  "textContentOf forest r = (case find_among r forest of None \<Rightarrow> [] | Some n \<Rightarrow> textContent n)"

text \<open>\<^verbatim>\<open>element.hasAttribute(name)\<close> through a reference.\<close>

definition elementHasAttribute :: "dnode list \<Rightarrow> ref \<Rightarrow> string \<Rightarrow> bool" where
  "elementHasAttribute forest r name =
     (case find_among r forest of None \<Rightarrow> False | Some n \<Rightarrow> hasAttribute n name)"

text \<open>\<^verbatim>\<open>node.nodeType === 3\<close> through a reference: the node has no \<^verbatim>\<open>hasAttribute\<close>.\<close>

definition isTextNode :: "dnode list \<Rightarrow> ref \<Rightarrow> bool" where
  "isTextNode forest r =
     (case find_among r forest of
        None \<Rightarrow> False
      | Some n \<Rightarrow> \<not> is_element n)"

text \<open>
  The length of a node, as the selection of the browser counts it: the code units of a
  text node, the children of an element.
\<close>

definition nodeLength :: "dnode list \<Rightarrow> ref \<Rightarrow> nat" where
  "nodeLength forest r =
     (case find_among r forest of
        None \<Rightarrow> 0
      | Some (DText i t) \<Rightarrow> length t
      | Some (DElem i t a ks) \<Rightarrow> length ks)"

text \<open>The node is in the tree of the document, not in a detached subtree.\<close>

definition inDocument :: "dnode list \<Rightarrow> ref \<Rightarrow> bool" where
  "inDocument forest r =
     (case forest of
        [] \<Rightarrow> False
      | d # detached \<Rightarrow> find_node r d \<noteq> None)"

subsection \<open>The logical document, as the plugin sees it\<close>

text \<open>
  A logical position is a key, a path and an offset. A selection is a range with the two
  properties the handlers read, \<^verbatim>\<open>isCollapsed\<close> and \<^verbatim>\<open>isBlurred\<close>. A logical
  node is an immutable object with identity (\<open>oid\<close>): the plugin compares two of them
  with \<^verbatim>\<open>!==\<close> and reads \<^verbatim>\<open>node.text.length\<close>.
\<close>

record point =
  key :: string
  path :: "nat list option"
  offset :: nat

record range =
  anchor :: point
  focus :: point

record selection = range +
  isCollapsed :: bool
  isBlurred :: bool

record node =
  oid :: nat
  node_key :: string
  node_text :: jstring

text \<open>
  \<^verbatim>\<open>editor.controller.tmp.nextNativeOperation\<close>: the selection at composition start
  and the element \<^verbatim>\<open>closest(SELECTORS.KEY)\<close> found then, which may be \<^verbatim>\<open>null\<close>.
\<close>

record native_op =
  op_selection :: selection
  slateSpanNode :: "ref option"

subsection \<open>What the editor and the browser hold\<close>

text \<open>
  \<open>document\<close> and \<open>selection\<close> are \<^verbatim>\<open>editor.value.document\<close> and
  \<^verbatim>\<open>editor.value.selection\<close>; \<open>nodes\<close> is the DOM forest and \<open>nextRef\<close> the
  reference of the next node created; \<open>anchorNode\<close> and \<open>anchorOffset\<close> are those of
  \<^verbatim>\<open>window.getSelection()\<close>; \<open>docActiveElement\<close> is
  \<^verbatim>\<open>window.document.activeElement\<close>. The type of the document is the host's.
\<close>

record 'doc env =
  document :: 'doc
  selection :: selection
  nodes :: "dnode list"
  nextRef :: ref
  anchorNode :: "ref option"
  anchorOffset :: nat
  docActiveElement :: "ref option"

text \<open>
  The event: its \<^verbatim>\<open>target\<close> and \<^verbatim>\<open>relatedTarget\<close>, whether
  \<^verbatim>\<open>event.nativeEvent\<close> is set, and the key combination that the hotkey
  classifier reads.
\<close>

record event =
  target :: ref
  relatedTarget :: "ref option"
  nativeEvent :: bool
  keys :: string

datatype hotkey =
    IsCompose | IsBold | IsDeleteBackward | IsDeleteForward | IsDeleteLineBackward
  | IsDeleteLineForward | IsDeleteWordBackward | IsDeleteWordForward | IsItalic | IsRedo
  | IsSplitBlock | IsTransposeCharacter | IsUndo

text \<open>
  Everything the module imports or is handed, and that is not in the file: the flags of
  \<^verbatim>\<open>slate-dev-environment\<close>; the attribute names of \<^verbatim>\<open>DATA_ATTRS\<close>; the
  selectors of \<^verbatim>\<open>SELECTORS\<close>, each as the set of elements it matches; the
  classifier of \<^verbatim>\<open>slate-hotkeys\<close> (\<^verbatim>\<open>Hotkeys.isBold(event)\<close> is
  \<open>Hotkeys h IsBold event\<close>); the editor's queries and its commands, which act on the
  editor's value and on the DOM but cannot reach the closure variables of the plugin
  nor, by assumption, \<^verbatim>\<open>editor.controller.tmp\<close>; and \<^verbatim>\<open>el.focus()\<close>.
  \<open>findDOMNode\<close> is \<^verbatim>\<open>editor.findDOMNode([])\<close>, the root element of the editor.
  The theorems hold for every such host.
\<close>

record 'doc host =
  IS_FIREFOX :: bool
  IS_IE :: bool
  IS_IOS :: bool
  HAS_INPUT_EVENTS_LEVEL_2 :: bool
  DATA_ATTRS_LENGTH :: string
  DATA_ATTRS_SPACER :: string
  DATA_ATTRS_STRING :: string
  DATA_ATTRS_ZERO_WIDTH :: string
  SELECTORS_KEY :: "dnode \<Rightarrow> bool"
  SELECTORS_STRING :: "dnode \<Rightarrow> bool"
  SELECTORS_ZERO_WIDTH :: "dnode \<Rightarrow> bool"
  Hotkeys :: "hotkey \<Rightarrow> event \<Rightarrow> bool"
  getPath :: "'doc \<Rightarrow> string \<Rightarrow> nat list option"
  getNode :: "'doc \<Rightarrow> string \<Rightarrow> node option"
  findDOMNode :: "'doc env \<Rightarrow> ref"
  findNode :: "'doc env \<Rightarrow> ref \<Rightarrow> node option"
  findPoint :: "'doc env \<Rightarrow> ref \<Rightarrow> nat \<Rightarrow> point option"
  isVoid :: "'doc env \<Rightarrow> node \<Rightarrow> bool"
  editorDelete :: "'doc env \<Rightarrow> 'doc env"
  insertTextAtRange :: "range \<Rightarrow> jstring \<Rightarrow> 'doc env \<Rightarrow> 'doc env"
  editorSelect :: "range \<Rightarrow> 'doc env \<Rightarrow> 'doc env"
  elementFocus :: "ref \<Rightarrow> 'doc env \<Rightarrow> 'doc env"

subsection \<open>The state of the plugin\<close>

text \<open>
  The callbacks handed to \<^verbatim>\<open>requestAnimationFrame\<close>:
  \<^verbatim>\<open>() => { if (compositionCount > n) return; isComposing = false }\<close> with its
  captured \<open>n\<close>, and \<^verbatim>\<open>() => (isCopying = false)\<close>.
\<close>

datatype task = FinalizeComposition nat | ClearCopying

text \<open>The commands of the editor that the plugin invokes, in the order of invocation.\<close>

datatype call = Delete | InsertTextAtRange range jstring | Select range | Focus ref

text \<open>
  The closure variables of \<^verbatim>\<open>BeforePlugin\<close>, with \<^verbatim>\<open>editor.readOnly\<close>, the
  slot \<^verbatim>\<open>editor.controller.tmp.nextNativeOperation\<close> (\<open>None\<close> is \<^verbatim>\<open>null\<close>),
  the callbacks waiting for the next animation frame, and the record \<open>calls\<close> of the
  editor commands invoked so far, which the code does not read.
\<close>

record 'doc state =
  env :: "'doc env"
  readOnly :: bool
  nextNativeOperation :: "native_op option"
  activeElement :: "ref option"
  compositionCount :: nat
  isComposing :: bool
  isCopying :: bool
  isDragging :: bool
  isUserActionPerformed :: bool
  frames :: "task list"
  calls :: "call list"

text \<open>
  The exceptions: \<^verbatim>\<open>Error(message)\<close> thrown by the code, the
  \<^verbatim>\<open>TypeError\<close> of reading a property of \<^verbatim>\<open>null\<close> or calling what is
  not a function, and the \<^verbatim>\<open>IndexSizeError\<close> of the selection of the browser.
\<close>

datatype error = Error string | TypeError | IndexSizeError

text \<open>
  What a JavaScript function returns: a boolean, or \<^verbatim>\<open>undefined\<close> when
  it ends without a \<^verbatim>\<open>return\<close>. \<open>truthy\<close> is the test of an \<^verbatim>\<open>if\<close>.
\<close>

datatype retval = Bool bool | Undefined

fun truthy :: "retval \<Rightarrow> bool" where
  "truthy (Bool b) = b"
| "truthy Undefined = False"

record 'doc outcome =
  st :: "'doc state"
  propagated :: bool
  defaultPrevented :: bool
  dropEffect :: "string option"
  thrown :: "error option"

text \<open>The handler returns without calling \<^verbatim>\<open>next()\<close>.\<close>

definition returns :: "'doc state \<Rightarrow> 'doc outcome" where
  "returns s =
     \<lparr>st = s, propagated = False, defaultPrevented = False, dropEffect = None, thrown = None\<rparr>"

text \<open>The handler calls \<^verbatim>\<open>next()\<close> and returns.\<close>

definition callsNext :: "'doc state \<Rightarrow> 'doc outcome" where
  "callsNext s = (returns s)\<lparr>propagated := True\<rparr>"

definition throws :: "'doc state \<Rightarrow> error \<Rightarrow> 'doc outcome" where
  "throws s e = (returns s)\<lparr>thrown := Some e\<rparr>"

definition preventDefault :: "'doc outcome \<Rightarrow> 'doc outcome" where
  "preventDefault r = r\<lparr>defaultPrevented := True\<rparr>"

text \<open>
  \<^verbatim>\<open>compositionCount++\<close> on a JavaScript number, which holds every integer up to
  \<open>2 ^ 53\<close> exactly; there \<open>x + 1\<close> rounds back to \<open>x\<close>.
\<close>

definition increment :: "nat \<Rightarrow> nat" where
  "increment n = (if n < 2 ^ 53 then n + 1 else n)"

subsection \<open>flushQueuedNativeOperations\<close>

text \<open>
  The body of the loop over \<^verbatim>\<open>allChildTextNodes\<close>, for one
  \<^verbatim>\<open>childTextNode\<close>: when the run carries a placeholder character it should not,
  remove its \<^verbatim>\<open>BR\<close> children, strip the placeholder characters (from the only
  child when one child is left, from the run itself otherwise) and remove the two
  placeholder attributes.
\<close>

definition cleanTextRun :: "'doc host \<Rightarrow> ref \<Rightarrow> 'doc env \<Rightarrow> 'doc env" where
  "cleanTextRun h r e =
     (case find_among r (nodes e) of
        None \<Rightarrow> e
      | Some childTextNode \<Rightarrow>
          (let isStringNode = hasAttribute childTextNode (DATA_ATTRS_STRING h);
               isZeroWidth = hasAttribute childTextNode (DATA_ATTRS_ZERO_WIDTH h)
           in if isStringNode \<or> isZeroWidth
              then (if (isStringNode \<and> hasZeroWidthChars (textContent childTextNode)) \<or>
                       (isZeroWidth \<and> textContent childTextNode \<noteq> [ZERO_WIDTH_CHAR])
                    then (let e1 = e\<lparr>nodes := modify_node r removeBRChildren (nodes e)\<rparr>;
                              e2 = (case find_among r (nodes e1) of
                                      None \<Rightarrow> e1
                                    | Some n1 \<Rightarrow>
                                        (case childNodes n1 of
                                           [c] \<Rightarrow>
                                             e1\<lparr>nodes := modify_node (ref_of c)
                                                   (setTextContent (nextRef e1)
                                                      (strip_zero_width (textContent c)))
                                                   (nodes e1),
                                                nextRef := nextRef e1 + 1\<rparr>
                                         | _ \<Rightarrow>
                                             e1\<lparr>nodes := modify_node r
                                                   (setTextContent (nextRef e1)
                                                      (strip_zero_width (textContent n1)))
                                                   (nodes e1),
                                                nextRef := nextRef e1 + 1\<rparr>));
                              e3 = e2\<lparr>nodes := modify_node r
                                     (removeAttribute (DATA_ATTRS_ZERO_WIDTH h)) (nodes e2)\<rparr>
                          in e3\<lparr>nodes := modify_node r
                                 (removeAttribute (DATA_ATTRS_LENGTH h)) (nodes e3)\<rparr>)
                    else e)
              else e))"

text \<open>
  The loop: \<^verbatim>\<open>querySelectorAll(`${SELECTORS.STRING}, ${SELECTORS.ZERO_WIDTH}`)\<close> on
  the container, then the body for each element of the static list.
\<close>

definition cleanContainer :: "'doc host \<Rightarrow> ref \<Rightarrow> 'doc env \<Rightarrow> 'doc env" where
  "cleanContainer h span e =
     fold (cleanTextRun h)
       (querySelectorAll (nodes e) span (\<lambda>d. SELECTORS_STRING h d \<or> SELECTORS_ZERO_WIDTH h d))
       e"

text \<open>
  The function returns the state and either the exception thrown or the value returned.
  Reading a property of \<^verbatim>\<open>null\<close> throws a \<^verbatim>\<open>TypeError\<close>: at
  \<^verbatim>\<open>textNode.parentElement.closest\<close> when there is no anchor node or it has no
  parent element, and at \<^verbatim>\<open>slateNodeFromDomNode.text\<close> when both lookups of the
  logical node gave \<^verbatim>\<open>null\<close>. The last statement,
  \<^verbatim>\<open>window.getSelection().collapse(textNode, currentOffset)\<close>, throws an
  \<^verbatim>\<open>IndexSizeError\<close> when the offset read at the start is beyond the length the
  node has by then, does nothing when the node is no longer in the document, and moves
  the native selection otherwise. The function has no \<^verbatim>\<open>return\<close> after it.
\<close>

definition flushQueuedNativeOperations ::
    "'doc host \<Rightarrow> 'doc state \<Rightarrow> 'doc state \<times> (error + retval)" where
  "flushQueuedNativeOperations h s =
     (case nextNativeOperation s of
        None \<Rightarrow> (s, Inr (Bool False))
      | Some nativeOp \<Rightarrow>
     (let s0 = s\<lparr>nextNativeOperation := None\<rparr>;
          oldSelection = op_selection nativeOp;
          currentOffset = anchorOffset (env s0)
      in case anchorNode (env s0) of
        None \<Rightarrow> (s0, Inl TypeError)
      | Some textNode \<Rightarrow>
     (case parentElement (nodes (env s0)) textNode of
        None \<Rightarrow> (s0, Inl TypeError)
      | Some parent \<Rightarrow>
     (case closest (nodes (env s0)) (SELECTORS_KEY h) parent of
        None \<Rightarrow> (s0, Inl (Error ''YOWIE WOWIE: could not find slate span''))
      | Some currentSlateSpanNode \<Rightarrow>
     (if slateSpanNode nativeOp \<noteq> Some currentSlateSpanNode
      then (s0, Inl (Error ''YOWIE WOWIE: slate span node mismatch''))
      else
     (let k = key (anchor oldSelection);
          p = getPath h (document (env s0)) k;
          nd = getNode h (document (env s0)) k;
          slateNodeFromDomNode = findNode h (env s0) currentSlateSpanNode
      in if slateNodeFromDomNode \<noteq> nd
         then (s0, Inl (Error ''YOWIE WOWIE: Slate nodes do not match up!''))
         else
     (let s1 = s0\<lparr>env := cleanContainer h currentSlateSpanNode (env s0)\<rparr>
      in case nd of
        None \<Rightarrow> (s1, Inl TypeError)
      | Some n \<Rightarrow>
     (let newTextContent =
            strip_zero_width (textContentOf (nodes (env s1)) currentSlateSpanNode);
          rng = \<lparr>anchor = \<lparr>key = k, path = p, offset = 0\<rparr>,
                 focus = \<lparr>key = k, path = p, offset = length (node_text n)\<rparr>\<rparr>;
          s2 = s1\<lparr>env := insertTextAtRange h rng newTextContent (env s1),
                  calls := calls s1 @ [InsertTextAtRange rng newTextContent]\<rparr>
      in if parentElement (nodes (env s2)) textNode = None
         then (s2, Inl (Error ''YOWIE WOWIE: text node is no longer in the dom!''))
         else
     (case findPoint h (env s2) textNode currentOffset of
        None \<Rightarrow>
          (s2, Inl (Error ''YOWIE WOWIE: Unable to translate dom position to slate position!''))
      | Some pt \<Rightarrow>
     (let sel = \<lparr>anchor = pt, focus = pt\<rparr>;
          s3 = s2\<lparr>env := editorSelect h sel (env s2), calls := calls s2 @ [Select sel]\<rparr>
      in if nodeLength (nodes (env s3)) textNode < currentOffset
         then (s3, Inl IndexSizeError)
         else if \<not> inDocument (nodes (env s3)) textNode
         then (s3, Inr Undefined)
         else (s3\<lparr>env := (env s3)\<lparr>anchorNode := Some textNode,
                                     anchorOffset := currentOffset\<rparr>\<rparr>,
               Inr Undefined)))))))))))"

subsection \<open>The event handlers\<close>

definition onBeforeInput :: "'doc host \<Rightarrow> event \<Rightarrow> 'doc state \<Rightarrow> 'doc outcome" where
  "onBeforeInput h ev s =
     (if isComposing s then returns s
      else (let isSynthetic = nativeEvent ev
            in if readOnly s then returns s
               else (let s1 = s\<lparr>isUserActionPerformed := True\<rparr>
                     in if isSynthetic \<and> HAS_INPUT_EVENTS_LEVEL_2 h then returns s1
                        else callsNext s1)))"

text \<open>
  \<^verbatim>\<open>relatedTarget.hasAttribute(...)\<close> is a call of what is not a function when
  the related target is not an element.
\<close>

definition onBlur :: "'doc host \<Rightarrow> event \<Rightarrow> 'doc state \<Rightarrow> 'doc outcome" where
  "onBlur h ev s =
     (if isCopying s then returns s
      else if readOnly s then returns s
      else if activeElement s = docActiveElement (env s) then returns s
      else (case relatedTarget ev of
              None \<Rightarrow> callsNext s
            | Some rt \<Rightarrow>
                (let el = findDOMNode h (env s)
                 in if rt = el then returns s
                    else if isTextNode (nodes (env s)) rt then throws s TypeError
                    else if elementHasAttribute (nodes (env s)) rt (DATA_ATTRS_SPACER h)
                    then returns s
                    else (let nd = findNode h (env s) rt
                          in if contains (nodes (env s)) el rt \<and>
                                (case nd of None \<Rightarrow> False | Some n \<Rightarrow> \<not> isVoid h (env s) n)
                             then returns s
                             else callsNext s))))"

definition onCompositionEnd :: "'doc host \<Rightarrow> event \<Rightarrow> 'doc state \<Rightarrow> 'doc outcome" where
  "onCompositionEnd h ev s =
     (let n = compositionCount s;
          s1 = s\<lparr>isUserActionPerformed := True\<rparr>
      in case flushQueuedNativeOperations h s1 of
           (s2, Inl e) \<Rightarrow> throws s2 e
         | (s2, Inr r) \<Rightarrow> callsNext (s2\<lparr>frames := frames s2 @ [FinalizeComposition n]\<rparr>))"

definition onClick :: "'doc host \<Rightarrow> event \<Rightarrow> 'doc state \<Rightarrow> 'doc outcome" where
  "onClick h ev s = callsNext (s\<lparr>isUserActionPerformed := True\<rparr>)"

definition onCompositionStart :: "'doc host \<Rightarrow> event \<Rightarrow> 'doc state \<Rightarrow> 'doc outcome" where
  "onCompositionStart h ev s =
     (let s1 = s\<lparr>isComposing := True, compositionCount := increment (compositionCount s)\<rparr>;
          sel = selection (env s1);
          s2 = s1\<lparr>isUserActionPerformed := True\<rparr>
      in if \<not> isCollapsed sel
         then callsNext (s2\<lparr>env := editorDelete h (env s2), calls := calls s2 @ [Delete]\<rparr>)
         else (case nextNativeOperation s2 of
                 Some pending \<Rightarrow> throws s2 (Error ''YOWIE WOWIE: already have a native op!'')
               | None \<Rightarrow>
                   (case anchorNode (env s2) of
                      None \<Rightarrow> throws s2 TypeError
                    | Some a \<Rightarrow>
                        (case parentElement (nodes (env s2)) a of
                           None \<Rightarrow> throws s2 TypeError
                         | Some parent \<Rightarrow>
                             callsNext (s2\<lparr>nextNativeOperation :=
                               Some \<lparr>op_selection = selection (env s2),
                                     slateSpanNode =
                                       closest (nodes (env s2)) (SELECTORS_KEY h) parent\<rparr>\<rparr>)))))"

definition onCopy :: "'doc host \<Rightarrow> event \<Rightarrow> 'doc state \<Rightarrow> 'doc outcome" where
  "onCopy h ev s = callsNext (s\<lparr>isCopying := True, frames := frames s @ [ClearCopying]\<rparr>)"

definition onCut :: "'doc host \<Rightarrow> event \<Rightarrow> 'doc state \<Rightarrow> 'doc outcome" where
  "onCut h ev s =
     (if readOnly s then returns s
      else callsNext (s\<lparr>isCopying := True, frames := frames s @ [ClearCopying]\<rparr>))"

definition onDragEnd :: "'doc host \<Rightarrow> event \<Rightarrow> 'doc state \<Rightarrow> 'doc outcome" where
  "onDragEnd h ev s = callsNext (s\<lparr>isDragging := False\<rparr>)"

definition onDragEnter :: "'doc host \<Rightarrow> event \<Rightarrow> 'doc state \<Rightarrow> 'doc outcome" where
  "onDragEnter h ev s = callsNext s"

definition onDragExit :: "'doc host \<Rightarrow> event \<Rightarrow> 'doc state \<Rightarrow> 'doc outcome" where
  "onDragExit h ev s = callsNext s"

definition onDragLeave :: "'doc host \<Rightarrow> event \<Rightarrow> 'doc state \<Rightarrow> 'doc outcome" where
  "onDragLeave h ev s = callsNext s"

text \<open>
  \<^verbatim>\<open>event.nativeEvent.dataTransfer.dropEffect = 'move'\<close> is the field
  \<open>dropEffect\<close> of the outcome.
\<close>

definition onDragOver :: "'doc host \<Rightarrow> event \<Rightarrow> 'doc state \<Rightarrow> 'doc outcome" where
  "onDragOver h ev s =
     (let nd = findNode h (env s) (target ev);
          prevented = ((case nd of None \<Rightarrow> True | Some n \<Rightarrow> isVoid h (env s) n) \<or> IS_IE h);
          s1 = (if \<not> isDragging s then s\<lparr>isDragging := True\<rparr> else s);
          effect = (if \<not> isDragging s \<and> \<not> IS_IE h then Some ''move'' else None)
      in (callsNext s1)\<lparr>defaultPrevented := prevented, dropEffect := effect\<rparr>)"

definition onDragStart :: "'doc host \<Rightarrow> event \<Rightarrow> 'doc state \<Rightarrow> 'doc outcome" where
  "onDragStart h ev s = callsNext (s\<lparr>isDragging := True\<rparr>)"

definition onDrop :: "'doc host \<Rightarrow> event \<Rightarrow> 'doc state \<Rightarrow> 'doc outcome" where
  "onDrop h ev s =
     (if readOnly s then returns s
      else preventDefault (callsNext (s\<lparr>isUserActionPerformed := True\<rparr>)))"

definition onFocus :: "'doc host \<Rightarrow> event \<Rightarrow> 'doc state \<Rightarrow> 'doc outcome" where
  "onFocus h ev s =
     (if isCopying s then returns s
      else if readOnly s then returns s
      else (let el = findDOMNode h (env s);
                s1 = s\<lparr>activeElement := docActiveElement (env s)\<rparr>
            in if IS_FIREFOX h \<and> target ev \<noteq> el
               then returns (s1\<lparr>env := elementFocus h el (env s1), calls := calls s1 @ [Focus el]\<rparr>)
               else callsNext s1))"

text \<open>
  \<^verbatim>\<open>if (flushQueuedNativeOperations(editor)) { return next() }\<close>: an exception of
  the flush leaves the handler; a truthy result calls \<^verbatim>\<open>next()\<close> at once.
\<close>

definition onInput :: "'doc host \<Rightarrow> event \<Rightarrow> 'doc state \<Rightarrow> 'doc outcome" where
  "onInput h ev s =
     (if isComposing s then returns s
      else (case flushQueuedNativeOperations h s of
              (s1, Inl e) \<Rightarrow> throws s1 e
            | (s1, Inr r) \<Rightarrow>
                if truthy r then callsNext s1
                else if isBlurred (selection (env s1)) then returns s1
                else callsNext (s1\<lparr>isUserActionPerformed := True\<rparr>)))"

definition onKeyDown :: "'doc host \<Rightarrow> event \<Rightarrow> 'doc state \<Rightarrow> 'doc outcome" where
  "onKeyDown h ev s =
     (if readOnly s then returns s
      else if isComposing s
      then (if Hotkeys h IsCompose ev then preventDefault (returns s) else returns s)
      else (let s1 = s\<lparr>isUserActionPerformed := True\<rparr>
            in if \<not> IS_IOS h \<and>
                  (Hotkeys h IsBold ev \<or>
                   Hotkeys h IsDeleteBackward ev \<or>
                   Hotkeys h IsDeleteForward ev \<or>
                   Hotkeys h IsDeleteLineBackward ev \<or>
                   Hotkeys h IsDeleteLineForward ev \<or>
                   Hotkeys h IsDeleteWordBackward ev \<or>
                   Hotkeys h IsDeleteWordForward ev \<or>
                   Hotkeys h IsItalic ev \<or>
                   Hotkeys h IsRedo ev \<or>
                   Hotkeys h IsSplitBlock ev \<or>
                   Hotkeys h IsTransposeCharacter ev \<or>
                   Hotkeys h IsUndo ev)
               then preventDefault (callsNext s1)
               else callsNext s1))"

definition onPaste :: "'doc host \<Rightarrow> event \<Rightarrow> 'doc state \<Rightarrow> 'doc outcome" where
  "onPaste h ev s =
     (if readOnly s then returns s
      else preventDefault (callsNext (s\<lparr>isUserActionPerformed := True\<rparr>)))"

definition onSelect :: "'doc host \<Rightarrow> event \<Rightarrow> 'doc state \<Rightarrow> 'doc outcome" where
  "onSelect h ev s =
     (if isComposing s then returns s
      else if isCopying s then returns s
      else if readOnly s then returns s
      else callsNext (s\<lparr>activeElement := docActiveElement (env s),
                         isUserActionPerformed := True\<rparr>))"

definition userActionPerformed :: "'doc state \<Rightarrow> bool" where
  "userActionPerformed s = isUserActionPerformed s"

definition clearUserActionPerformed :: "'doc state \<Rightarrow> 'doc state" where
  "clearUserActionPerformed s = s\<lparr>isUserActionPerformed := False\<rparr>"

text \<open>The object the plugin returns: one handler for each event name.\<close>

datatype handler =
    OnBeforeInput | OnBlur | OnClick | OnCompositionEnd | OnCompositionStart | OnCopy
  | OnCut | OnDragEnd | OnDragEnter | OnDragExit | OnDragLeave | OnDragOver | OnDragStart
  | OnDrop | OnFocus | OnInput | OnKeyDown | OnPaste | OnSelect

fun dispatch :: "handler \<Rightarrow> 'doc host \<Rightarrow> event \<Rightarrow> 'doc state \<Rightarrow> 'doc outcome" where
  "dispatch OnBeforeInput = onBeforeInput"
| "dispatch OnBlur = onBlur"
| "dispatch OnClick = onClick"
| "dispatch OnCompositionEnd = onCompositionEnd"
| "dispatch OnCompositionStart = onCompositionStart"
| "dispatch OnCopy = onCopy"
| "dispatch OnCut = onCut"
| "dispatch OnDragEnd = onDragEnd"
| "dispatch OnDragEnter = onDragEnter"
| "dispatch OnDragExit = onDragExit"
| "dispatch OnDragLeave = onDragLeave"
| "dispatch OnDragOver = onDragOver"
| "dispatch OnDragStart = onDragStart"
| "dispatch OnDrop = onDrop"
| "dispatch OnFocus = onFocus"
| "dispatch OnInput = onInput"
| "dispatch OnKeyDown = onKeyDown"
| "dispatch OnPaste = onPaste"
| "dispatch OnSelect = onSelect"

subsection \<open>Animation frames\<close>

fun run_task :: "task \<Rightarrow> 'doc state \<Rightarrow> 'doc state" where
  "run_task (FinalizeComposition n) s =
     (if compositionCount s > n then s else s\<lparr>isComposing := False\<rparr>)"
| "run_task ClearCopying s = s\<lparr>isCopying := False\<rparr>"

text \<open>The next animation frame runs the waiting callbacks in the order they were handed in.\<close>

definition run_frame :: "'doc state \<Rightarrow> 'doc state" where
  "run_frame s = fold run_task (frames s) (s\<lparr>frames := []\<rparr>)"

subsection \<open>Runs of the plugin\<close>

text \<open>
  The browser calls one handler after the other and, between them, runs an animation
  frame. A handler that throws leaves the state it had reached. Between two handlers
  the editor's value and the DOM change in ways the plugin does not control (the
  handlers downstream of \<^verbatim>\<open>next()\<close>, the renderer, the input method): a step
  \<open>Outside f\<close> is any such change.
\<close>

datatype 'doc step = Handle handler event | AnimationFrame | Outside "'doc env \<Rightarrow> 'doc env"

fun run_step :: "'doc host \<Rightarrow> 'doc step \<Rightarrow> 'doc state \<Rightarrow> 'doc state" where
  "run_step h (Handle hdl ev) s = st (dispatch hdl h ev s)"
| "run_step h AnimationFrame s = run_frame s"
| "run_step h (Outside f) s = s\<lparr>env := f (env s)\<rparr>"

definition run_steps :: "'doc host \<Rightarrow> 'doc step list \<Rightarrow> 'doc state \<Rightarrow> 'doc state" where
  "run_steps h steps s = fold (run_step h) steps s"

text \<open>No waiting finalize callback has captured a count above the current one.\<close>

fun task_in_past :: "nat \<Rightarrow> task \<Rightarrow> bool" where
  "task_in_past c (FinalizeComposition n) = (n \<le> c)"
| "task_in_past c ClearCopying = True"

definition frames_in_past :: "'doc state \<Rightarrow> bool" where
  "frames_in_past s = list_all (task_in_past (compositionCount s)) (frames s)"

text \<open>
  Every waiting finalize callback has captured a count below the current one, so that
  none of them would clear \<^verbatim>\<open>isComposing\<close>.
\<close>

fun task_stale :: "nat \<Rightarrow> task \<Rightarrow> bool" where
  "task_stale c (FinalizeComposition n) = (n < c)"
| "task_stale c ClearCopying = True"

text \<open>
  The state of a plugin between two handlers: while an operation is pending the plugin
  is composing and every waiting finalize callback is stale.
\<close>

definition pending_while_composing :: "'doc state \<Rightarrow> bool" where
  "pending_while_composing s =
     (frames_in_past s \<and>
      (nextNativeOperation s \<noteq> None \<longrightarrow>
         isComposing s \<and> list_all (task_stale (compositionCount s)) (frames s)))"

text \<open>The hotkeys of the condition in \<^verbatim>\<open>onKeyDown\<close>, in its order.\<close>

definition preventedHotkeys :: "hotkey list" where
  "preventedHotkeys =
     [IsBold, IsDeleteBackward, IsDeleteForward, IsDeleteLineBackward, IsDeleteLineForward,
      IsDeleteWordBackward, IsDeleteWordForward, IsItalic, IsRedo, IsSplitBlock,
      IsTransposeCharacter, IsUndo]"

text \<open>
  Modelled from the spec: the editor's \<^verbatim>\<open>insertTextAtRange\<close> is not in the
  file; the spec has it "replace text in a logical range". The text of the node after
  the replacement, from its text before, the offsets of the range and the new text.
\<close>

definition replaceText :: "range \<Rightarrow> jstring \<Rightarrow> jstring \<Rightarrow> jstring" where
  "replaceText rng txt old =
     take (offset (anchor rng)) old @ txt @ drop (offset (focus rng)) old"

subsection \<open>A host to run the handlers on\<close>

text \<open>
  Modelled from the spec: the host collaborator contract of its section 6 (the editor's
  lookups and commands, the constants and the hotkey classifier are not in the file
  under verification). The document is a list of text nodes; the element of a logical
  node carries its key in the attribute \<^verbatim>\<open>data-key\<close>; replacing the text of a
  range makes a new node object.
\<close>

fun ex_path :: "node list \<Rightarrow> string \<Rightarrow> nat \<Rightarrow> nat list option" where
  "ex_path [] k i = None"
| "ex_path (n # ns) k i = (if node_key n = k then Some [i] else ex_path ns k (i + 1))"

definition ex_getNode :: "node list \<Rightarrow> string \<Rightarrow> node option" where
  "ex_getNode doc k = List.find (\<lambda>n. node_key n = k) doc"

definition ex_findNode :: "node list env \<Rightarrow> ref \<Rightarrow> node option" where
  "ex_findNode e r =
     (case closest (nodes e) (\<lambda>d. hasAttribute d ''data-key'') r of
        None \<Rightarrow> None
      | Some c \<Rightarrow>
          (case find_among c (nodes e) of
             None \<Rightarrow> None
           | Some d \<Rightarrow>
               (case map_of (attributes d) ''data-key'' of
                  None \<Rightarrow> None
                | Some k \<Rightarrow> ex_getNode (document e) k)))"

definition ex_findPoint :: "node list env \<Rightarrow> ref \<Rightarrow> nat \<Rightarrow> point option" where
  "ex_findPoint e r off =
     (case ex_findNode e r of
        None \<Rightarrow> None
      | Some n \<Rightarrow>
          if off \<le> length (node_text n)
          then Some \<lparr>key = node_key n, path = ex_path (document e) (node_key n) 0, offset = off\<rparr>
          else None)"

definition ex_insertTextAtRange :: "range \<Rightarrow> jstring \<Rightarrow> node list env \<Rightarrow> node list env" where
  "ex_insertTextAtRange rng txt e =
     e\<lparr>document :=
         map (\<lambda>n. if node_key n = key (anchor rng)
                   then n\<lparr>oid := Suc (fold max (map oid (document e)) 0),
                          node_text := replaceText rng txt (node_text n)\<rparr>
                   else n)
           (document e)\<rparr>"

definition ex_select :: "range \<Rightarrow> node list env \<Rightarrow> node list env" where
  "ex_select rng e =
     e\<lparr>selection := \<lparr>anchor = anchor rng, focus = focus rng,
                       isCollapsed = (anchor rng = focus rng),
                       isBlurred = isBlurred (selection e)\<rparr>\<rparr>"

definition ex_delete :: "node list env \<Rightarrow> node list env" where
  "ex_delete e =
     (let a = anchor (selection e); f = focus (selection e)
      in ex_select \<lparr>anchor = a, focus = a\<rparr>
           (ex_insertTextAtRange \<lparr>anchor = a, focus = f\<rparr> [] e))"

fun ex_combo :: "hotkey \<Rightarrow> string" where
  "ex_combo IsCompose = ''down''"
| "ex_combo IsBold = ''mod+b''"
| "ex_combo IsDeleteBackward = ''backspace''"
| "ex_combo IsDeleteForward = ''delete''"
| "ex_combo IsDeleteLineBackward = ''mod+shift+backspace''"
| "ex_combo IsDeleteLineForward = ''ctrl+k''"
| "ex_combo IsDeleteWordBackward = ''opt+backspace''"
| "ex_combo IsDeleteWordForward = ''opt+delete''"
| "ex_combo IsItalic = ''mod+i''"
| "ex_combo IsRedo = ''mod+shift+z''"
| "ex_combo IsSplitBlock = ''enter''"
| "ex_combo IsTransposeCharacter = ''ctrl+t''"
| "ex_combo IsUndo = ''mod+z''"

definition ex_host :: "node list host" where
  "ex_host =
     \<lparr>IS_FIREFOX = False, IS_IE = False, IS_IOS = False, HAS_INPUT_EVENTS_LEVEL_2 = False,
      DATA_ATTRS_LENGTH = ''data-slate-length'',
      DATA_ATTRS_SPACER = ''data-slate-spacer'',
      DATA_ATTRS_STRING = ''data-slate-string'',
      DATA_ATTRS_ZERO_WIDTH = ''data-slate-zero-width'',
      SELECTORS_KEY = (\<lambda>d. hasAttribute d ''data-key''),
      SELECTORS_STRING = (\<lambda>d. hasAttribute d ''data-slate-string''),
      SELECTORS_ZERO_WIDTH = (\<lambda>d. hasAttribute d ''data-slate-zero-width''),
      Hotkeys = (\<lambda>k ev. keys ev = ex_combo k),
      getPath = (\<lambda>doc k. ex_path doc k 0),
      getNode = ex_getNode,
      findDOMNode = (\<lambda>e. 1),
      findNode = ex_findNode,
      findPoint = ex_findPoint,
      isVoid = (\<lambda>e n. False),
      editorDelete = ex_delete,
      insertTextAtRange = ex_insertTextAtRange,
      editorSelect = ex_select,
      elementFocus = (\<lambda>r e. e\<lparr>docActiveElement := Some r\<rparr>)\<rparr>"

text \<open>
  The page: a body (0) with the editor (1) and a button (8) outside it. The editor holds
  the element of the text node with key \<open>a\<close> (2), its leaf (3) and its text run (4),
  whose text node (5) reads \<open>h\<close>, the placeholder, \<open>i\<close> and is followed by a
  \<^verbatim>\<open>BR\<close> (6); and the spacer of a void node (7). The logical text is still \<open>h\<close>:
  the input method typed \<open>i\<close> into the DOM.
\<close>

definition ex_nodes :: "dnode list" where
  "ex_nodes =
     [DElem 0 ''BODY'' []
        [DElem 1 ''DIV'' [(''data-slate-editor'', ''true'')]
           [DElem 2 ''SPAN'' [(''data-key'', ''a'')]
              [DElem 3 ''SPAN'' [(''data-slate-leaf'', ''true'')]
                 [DElem 4 ''SPAN'' [(''data-slate-string'', ''true'')]
                    [DText 5 [0x68, 0xFEFF, 0x69], DElem 6 ''BR'' [] []]]],
            DElem 7 ''SPAN'' [(''data-slate-spacer'', ''true'')] []],
         DElem 8 ''BUTTON'' [] []]]"

definition ex_point :: point where
  "ex_point = \<lparr>key = ''a'', path = Some [0], offset = 1\<rparr>"

definition ex_selection :: selection where
  "ex_selection = \<lparr>anchor = ex_point, focus = ex_point, isCollapsed = True, isBlurred = False\<rparr>"

definition ex_env :: "node list env" where
  "ex_env =
     \<lparr>document = [\<lparr>oid = 0, node_key = ''a'', node_text = [0x68]\<rparr>],
      selection = ex_selection,
      nodes = ex_nodes,
      nextRef = 9,
      anchorNode = Some 5,
      anchorOffset = 2,
      docActiveElement = Some 1\<rparr>"

text \<open>The plugin as \<^verbatim>\<open>BeforePlugin()\<close> leaves it, on that page.\<close>

definition ex_idle :: "node list state" where
  "ex_idle =
     \<lparr>env = ex_env, readOnly = False, nextNativeOperation = None, activeElement = None,
      compositionCount = 0, isComposing = False, isCopying = False, isDragging = False,
      isUserActionPerformed = False, frames = [], calls = []\<rparr>"

text \<open>A Pending Native Operation is outstanding and the composition is over.\<close>

definition ex_pending :: "node list state" where
  "ex_pending =
     ex_idle\<lparr>nextNativeOperation :=
               Some \<lparr>op_selection = ex_selection, slateSpanNode = Some 2\<rparr>,
             compositionCount := 1\<rparr>"

definition ex_event :: event where
  "ex_event = \<lparr>target = 1, relatedTarget = None, nativeEvent = True, keys = ''a''\<rparr>"

text \<open>
  Three flushes that must fail: the native anchor is the spacer (7), which no element
  with a key encloses; the operation was captured on the leaf (3), not on the element
  with the key; the snapshot names the key \<open>b\<close>, which the document does not have.
\<close>

definition ex_no_span :: "node list state" where
  "ex_no_span = ex_pending\<lparr>env := ex_env\<lparr>anchorNode := Some 7\<rparr>\<rparr>"

definition ex_mismatch :: "node list state" where
  "ex_mismatch =
     ex_pending\<lparr>nextNativeOperation :=
                  Some \<lparr>op_selection = ex_selection, slateSpanNode = Some 3\<rparr>\<rparr>"

definition ex_desync :: "node list state" where
  "ex_desync =
     ex_pending\<lparr>nextNativeOperation :=
                  Some \<lparr>op_selection =
                          ex_selection\<lparr>anchor := ex_point\<lparr>key := ''b''\<rparr>\<rparr>,
                        slateSpanNode = Some 2\<rparr>\<rparr>"

text \<open>
  More states and events: a selection that is not collapsed; a composition in progress
  with its operation captured; the same host on iOS; the key combination of bold.
\<close>

definition ex_expanded :: "node list state" where
  "ex_expanded =
     ex_idle\<lparr>env := ex_env\<lparr>selection :=
       \<lparr>anchor = ex_point\<lparr>offset := 0\<rparr>, focus = ex_point,
        isCollapsed = False, isBlurred = False\<rparr>\<rparr>\<rparr>"

definition ex_composing :: "node list state" where
  "ex_composing = ex_pending\<lparr>isComposing := True\<rparr>"

definition ex_ios :: "node list host" where
  "ex_ios = ex_host\<lparr>IS_IOS := True\<rparr>"

definition ex_bold :: event where
  "ex_bold = ex_event\<lparr>keys := ''mod+b''\<rparr>"

text \<open>
  A page with two editors. The first (1) holds the element of the text node with key
  \<open>a\<close> (2), with its leaf (3), its text run (4) and the text \<open>h\<close> (5), and beside
  the leaf a part that is not editable (6, with the text node 7). The second editor (8)
  holds a void node (9) with its spacer (10). The plugin is the one of the first editor,
  as \<^verbatim>\<open>BeforePlugin()\<close> leaves it.
\<close>

definition ex_nodes2 :: "dnode list" where
  "ex_nodes2 =
     [DElem 0 ''BODY'' []
        [DElem 1 ''DIV'' [(''data-slate-editor'', ''true'')]
           [DElem 2 ''SPAN'' [(''data-key'', ''a'')]
              [DElem 3 ''SPAN'' [(''data-slate-leaf'', ''true'')]
                 [DElem 4 ''SPAN'' [(''data-slate-string'', ''true'')] [DText 5 [0x68]]],
               DElem 6 ''SPAN'' [(''contenteditable'', ''false'')] [DText 7 [0x78]]]],
         DElem 8 ''DIV'' [(''data-slate-editor'', ''true'')]
           [DElem 9 ''SPAN'' [(''data-key'', ''b'')]
              [DElem 10 ''SPAN'' [(''data-slate-spacer'', ''true'')] []]]]]"

definition ex_two_editors :: "node list state" where
  "ex_two_editors =
     ex_idle\<lparr>env := ex_env\<lparr>nodes := ex_nodes2, nextRef := 11, anchorOffset := 1\<rparr>\<rparr>"

text \<open>
  The first editor received the focus, and the focus then left it: the active element
  of the document is the body.
\<close>

definition ex_blurring :: "node list state" where
  "ex_blurring =
     run_steps ex_host
       [Handle OnFocus ex_event, Outside (\<lambda>e. e\<lparr>docActiveElement := Some 0\<rparr>)]
       ex_two_editors"

section \<open>Properties\<close>

subsection \<open>What a flush and a handler leave alone\<close>

lemmas outcome_defs = returns_def callsNext_def throws_def preventDefault_def

lemma flush_nothing:
  "nextNativeOperation s = None \<Longrightarrow> flushQueuedNativeOperations h s = (s, Inr (Bool False))"
  by (simp add: flushQueuedNativeOperations_def)

lemma flush_clears: "nextNativeOperation (fst (flushQueuedNativeOperations h s)) = None"
  by (simp add: flushQueuedNativeOperations_def Let_def split: option.splits)

lemma flush_closure:
  "readOnly (fst (flushQueuedNativeOperations h s)) = readOnly s \<and>
   activeElement (fst (flushQueuedNativeOperations h s)) = activeElement s \<and>
   compositionCount (fst (flushQueuedNativeOperations h s)) = compositionCount s \<and>
   isComposing (fst (flushQueuedNativeOperations h s)) = isComposing s \<and>
   isCopying (fst (flushQueuedNativeOperations h s)) = isCopying s \<and>
   isDragging (fst (flushQueuedNativeOperations h s)) = isDragging s \<and>
   isUserActionPerformed (fst (flushQueuedNativeOperations h s)) = isUserActionPerformed s \<and>
   frames (fst (flushQueuedNativeOperations h s)) = frames s"
  by (simp add: flushQueuedNativeOperations_def Let_def split: option.splits)

lemma flush_with_user_action:
  "flushQueuedNativeOperations h (s\<lparr>isUserActionPerformed := b\<rparr>) =
     (fst (flushQueuedNativeOperations h s)\<lparr>isUserActionPerformed := b\<rparr>,
      snd (flushQueuedNativeOperations h s))"
  by (simp add: flushQueuedNativeOperations_def Let_def split: option.splits)

lemma onCompositionEnd_throws:
  assumes "snd (flushQueuedNativeOperations h s) = Inl e"
  shows "thrown (onCompositionEnd h ev s) = Some e \<and> \<not> propagated (onCompositionEnd h ev s)"
  using assms
  by (simp add: onCompositionEnd_def flush_with_user_action throws_def returns_def)

lemma onInput_throws:
  assumes "snd (flushQueuedNativeOperations h s) = Inl e" and "\<not> isComposing s"
  shows "thrown (onInput h ev s) = Some e \<and> \<not> propagated (onInput h ev s)"
  using assms
  by (cases "flushQueuedNativeOperations h s") (auto simp add: onInput_def throws_def returns_def)

lemma fold_run_task_pending:
  "nextNativeOperation (fold run_task ts s) = nextNativeOperation s \<and>
   compositionCount (fold run_task ts s) = compositionCount s \<and>
   frames (fold run_task ts s) = frames s"
proof (induction ts arbitrary: s)
  case Nil
  show ?case by simp
next
  case (Cons t ts)
  show ?case by (cases t) (simp_all add: Cons.IH)
qed

lemma onCompositionEnd_state:
  "nextNativeOperation (st (onCompositionEnd h ev s)) = None \<and>
   compositionCount (st (onCompositionEnd h ev s)) = compositionCount s \<and>
   isComposing (st (onCompositionEnd h ev s)) = isComposing s \<and>
   (frames (st (onCompositionEnd h ev s)) = frames s \<and>
      thrown (onCompositionEnd h ev s) \<noteq> None \<or>
    frames (st (onCompositionEnd h ev s)) = frames s @ [FinalizeComposition (compositionCount s)] \<and>
      thrown (onCompositionEnd h ev s) = None)"
proof (cases "snd (flushQueuedNativeOperations h s)")
  case (Inl e)
  then show ?thesis
    using flush_clears [of h s] flush_closure [of h s]
    by (simp add: onCompositionEnd_def flush_with_user_action outcome_defs)
next
  case (Inr r)
  then show ?thesis
    using flush_clears [of h s] flush_closure [of h s]
    by (simp add: onCompositionEnd_def flush_with_user_action outcome_defs)
qed

lemma onInput_state:
  "(nextNativeOperation (st (onInput h ev s)) = None \<or>
    nextNativeOperation (st (onInput h ev s)) = nextNativeOperation s) \<and>
   compositionCount (st (onInput h ev s)) = compositionCount s \<and>
   frames (st (onInput h ev s)) = frames s"
proof (cases "isComposing s")
  case True
  then show ?thesis by (simp add: onInput_def outcome_defs)
next
  case False
  obtain s1 res where run: "flushQueuedNativeOperations h s = (s1, res)"
    by (cases "flushQueuedNativeOperations h s")
  with flush_clears [of h s] flush_closure [of h s]
  have "nextNativeOperation s1 = None" "compositionCount s1 = compositionCount s"
    "frames s1 = frames s"
    by simp_all
  with False run show ?thesis
    by (cases res) (simp_all add: onInput_def outcome_defs)
qed

lemma onCompositionStart_state:
  "compositionCount (st (onCompositionStart h ev s)) = increment (compositionCount s) \<and>
   isComposing (st (onCompositionStart h ev s)) \<and>
   frames (st (onCompositionStart h ev s)) = frames s"
  by (simp add: onCompositionStart_def Let_def outcome_defs split: option.splits)

lemma dispatch_state:
  assumes "hdl \<noteq> OnCompositionStart"
  shows "(nextNativeOperation (st (dispatch hdl h ev s)) = None \<or>
          nextNativeOperation (st (dispatch hdl h ev s)) = nextNativeOperation s) \<and>
         compositionCount (st (dispatch hdl h ev s)) = compositionCount s"
proof (cases hdl)
  case OnCompositionEnd
  then show ?thesis using onCompositionEnd_state [of h ev s] by simp
next
  case OnInput
  then show ?thesis using onInput_state [of h ev s] by simp
next
  case OnCompositionStart
  with assms show ?thesis by simp
qed (simp_all add: onBeforeInput_def onBlur_def onClick_def onCopy_def onCut_def onDragEnd_def
      onDragEnter_def onDragExit_def onDragLeave_def onDragOver_def onDragStart_def onDrop_def
      onFocus_def onKeyDown_def onPaste_def onSelect_def Let_def outcome_defs
      split: option.splits)

lemma dispatch_count:
  "compositionCount (st (dispatch hdl h ev s)) =
     (if hdl = OnCompositionStart then increment (compositionCount s) else compositionCount s)"
  using dispatch_state [of hdl h ev s] onCompositionStart_state [of h ev s]
  by (cases "hdl = OnCompositionStart") simp_all

lemma increment_mono: "n \<le> increment n"
  by (simp add: increment_def)

lemma run_step_count: "compositionCount s \<le> compositionCount (run_step h x s)"
proof (cases x)
  case (Handle hdl ev)
  then show ?thesis by (simp add: dispatch_count increment_mono)
next
  case AnimationFrame
  then show ?thesis by (simp add: run_frame_def fold_run_task_pending)
next
  case (Outside f)
  then show ?thesis by simp
qed

lemma run_steps_count: "compositionCount s \<le> compositionCount (run_steps h steps s)"
  unfolding run_steps_def
proof (induction steps arbitrary: s)
  case Nil
  show ?case by simp
next
  case (Cons x steps)
  have "compositionCount s \<le> compositionCount (run_step h x s)"
    by (rule run_step_count)
  also have "\<dots> \<le> compositionCount (fold (run_step h) steps (run_step h x s))"
    by (rule Cons.IH)
  finally show ?case by simp
qed

lemma run_steps_append: "run_steps h (xs @ ys) s = run_steps h ys (run_steps h xs s)"
  by (simp add: run_steps_def)

lemma run_steps_Cons: "run_steps h (x # xs) s = run_steps h xs (run_step h x s)"
  by (simp add: run_steps_def)

lemma fold_stale_tasks:
  assumes "list_all (task_in_past c) ts" and "c < compositionCount s"
  shows "isComposing (fold run_task ts s) = isComposing s"
  using assms
proof (induction ts arbitrary: s)
  case Nil
  show ?case by simp
next
  case (Cons t ts)
  show ?case
  proof (cases t)
    case (FinalizeComposition n)
    with Cons.prems have "run_task t s = s" by simp
    with Cons show ?thesis by simp
  next
    case ClearCopying
    with Cons show ?thesis by simp
  qed
qed

lemma dispatch_frames:
  "frames (st (dispatch hdl h ev s)) = frames s \<or>
   frames (st (dispatch hdl h ev s)) = frames s @ [ClearCopying] \<or>
   frames (st (dispatch hdl h ev s)) = frames s @ [FinalizeComposition (compositionCount s)]"
proof (cases hdl)
  case OnCompositionEnd
  then show ?thesis using onCompositionEnd_state [of h ev s] by auto
next
  case OnInput
  then show ?thesis using onInput_state [of h ev s] by simp
next
  case OnCompositionStart
  then show ?thesis using onCompositionStart_state [of h ev s] by simp
qed (simp_all add: onBeforeInput_def onBlur_def onClick_def onCopy_def onCut_def onDragEnd_def
      onDragEnter_def onDragExit_def onDragLeave_def onDragOver_def onDragStart_def onDrop_def
      onFocus_def onKeyDown_def onPaste_def onSelect_def Let_def outcome_defs
      split: option.splits)

lemma task_in_past_mono: "c \<le> d \<Longrightarrow> task_in_past c t \<Longrightarrow> task_in_past d t"
  by (cases t) simp_all

lemma run_step_frames_in_past:
  assumes "frames_in_past s"
  shows "frames_in_past (run_step h x s)"
proof (cases x)
  case (Handle hdl ev)
  let ?s' = "st (dispatch hdl h ev s)"
  have le: "compositionCount s \<le> compositionCount ?s'"
    by (simp add: dispatch_count increment_mono)
  from assms have old: "list_all (task_in_past (compositionCount ?s')) (frames s)"
    unfolding frames_in_past_def list_all_iff using task_in_past_mono [OF le] by blast
  from dispatch_frames [of hdl h ev s] old le have "frames_in_past ?s'"
    unfolding frames_in_past_def by auto
  with Handle show ?thesis by simp
next
  case AnimationFrame
  then show ?thesis
    by (simp add: frames_in_past_def run_frame_def fold_run_task_pending)
next
  case (Outside f)
  with assms show ?thesis by (simp add: frames_in_past_def)
qed

lemma fold_clear_copying:
  "ClearCopying \<in> set ts \<Longrightarrow> \<not> isCopying (fold run_task ts s)"
proof (induction ts arbitrary: s rule: rev_induct)
  case Nil
  then show ?case by simp
next
  case (snoc t ts)
  show ?case
  proof (cases t)
    case (FinalizeComposition n)
    with snoc show ?thesis by auto
  next
    case ClearCopying
    then show ?thesis by simp
  qed
qed

subsection \<open>An operation is pending only while composing\<close>

lemma dispatch_composing:
  assumes "hdl \<noteq> OnCompositionStart"
  shows "isComposing (st (dispatch hdl h ev s)) = isComposing s"
proof (cases hdl)
  case OnCompositionEnd
  then show ?thesis using onCompositionEnd_state [of h ev s] by simp
next
  case OnInput
  obtain s1 res where run: "flushQueuedNativeOperations h s = (s1, res)"
    by (cases "flushQueuedNativeOperations h s")
  with flush_closure [of h s] have "isComposing s1 = isComposing s"
    by simp
  with OnInput run show ?thesis
    by (cases res) (simp_all add: onInput_def outcome_defs)
next
  case OnCompositionStart
  with assms show ?thesis by simp
qed (simp_all add: onBeforeInput_def onBlur_def onClick_def onCopy_def onCut_def onDragEnd_def
      onDragEnter_def onDragExit_def onDragLeave_def onDragOver_def onDragStart_def onDrop_def
      onFocus_def onKeyDown_def onPaste_def onSelect_def Let_def outcome_defs
      split: option.splits)

lemma dispatch_frames_stale:
  assumes "hdl \<noteq> OnCompositionStart" and "hdl \<noteq> OnCompositionEnd"
  shows "frames (st (dispatch hdl h ev s)) = frames s \<or>
         frames (st (dispatch hdl h ev s)) = frames s @ [ClearCopying]"
proof (cases hdl)
  case OnInput
  then show ?thesis using onInput_state [of h ev s] by simp
next
  case OnCompositionStart
  with assms show ?thesis by simp
next
  case OnCompositionEnd
  with assms show ?thesis by simp
qed (simp_all add: onBeforeInput_def onBlur_def onClick_def onCopy_def onCut_def onDragEnd_def
      onDragEnter_def onDragExit_def onDragLeave_def onDragOver_def onDragStart_def onDrop_def
      onFocus_def onKeyDown_def onPaste_def onSelect_def Let_def outcome_defs
      split: option.splits)

lemma task_past_stale: "task_in_past c t \<Longrightarrow> c < d \<Longrightarrow> task_stale d t"
  by (cases t) simp_all

lemma fold_all_stale:
  assumes "list_all (task_stale (compositionCount s)) ts"
  shows "isComposing (fold run_task ts s) = isComposing s"
  using assms
proof (induction ts arbitrary: s)
  case Nil
  show ?case by simp
next
  case (Cons t ts)
  show ?case
  proof (cases t)
    case (FinalizeComposition n)
    with Cons.prems have "run_task t s = s" by simp
    with Cons show ?thesis by simp
  next
    case ClearCopying
    with Cons show ?thesis by simp
  qed
qed

lemma run_step_pending_while_composing:
  assumes inv: "pending_while_composing s"
    and below: "compositionCount (run_step h x s) < 2 ^ 53"
  shows "pending_while_composing (run_step h x s)"
proof -
  from inv have past: "frames_in_past s"
    by (simp add: pending_while_composing_def)
  have past': "frames_in_past (run_step h x s)"
    using past by (rule run_step_frames_in_past)
  show ?thesis
  proof (cases x)
    case (Handle hdl ev)
    let ?s' = "st (dispatch hdl h ev s)"
    show ?thesis
    proof (cases "hdl = OnCompositionStart")
      case True
      from onCompositionStart_state [of h ev s]
      have facts: "compositionCount ?s' = increment (compositionCount s)" "isComposing ?s'"
        "frames ?s' = frames s"
        using True by simp_all
      from below Handle facts have "compositionCount s < compositionCount ?s'"
        by (simp add: increment_def split: if_splits)
      with past have "list_all (task_stale (compositionCount ?s')) (frames s)"
        unfolding frames_in_past_def list_all_iff using task_past_stale by blast
      with facts past' Handle show ?thesis
        by (simp add: pending_while_composing_def)
    next
      case False
      note other = dispatch_state [OF False, of h ev s] dispatch_composing [OF False, of h ev s]
      show ?thesis
      proof (cases "hdl = OnCompositionEnd")
        case True
        with onCompositionEnd_state [of h ev s] past' Handle show ?thesis
          by (simp add: pending_while_composing_def)
      next
        case notEnd: False
        from dispatch_frames_stale [OF False notEnd, of h ev s] inv other
        have "nextNativeOperation ?s' \<noteq> None \<longrightarrow>
            isComposing ?s' \<and> list_all (task_stale (compositionCount ?s')) (frames ?s')"
          by (auto simp add: pending_while_composing_def)
        with past' Handle show ?thesis
          by (simp add: pending_while_composing_def)
      qed
    qed
  next
    case AnimationFrame
    have "isComposing (run_frame s)" if "nextNativeOperation s \<noteq> None"
    proof -
      from inv that have "isComposing s"
        and "list_all (task_stale (compositionCount (s\<lparr>frames := []\<rparr>))) (frames s)"
        by (simp_all add: pending_while_composing_def)
      then show ?thesis
        using fold_all_stale [of "s\<lparr>frames := []\<rparr>" "frames s"]
        by (simp add: run_frame_def)
    qed
    with past' AnimationFrame show ?thesis
      by (simp add: pending_while_composing_def run_frame_def fold_run_task_pending)
  next
    case (Outside f)
    with inv show ?thesis
      by (simp add: pending_while_composing_def frames_in_past_def)
  qed
qed

lemma run_steps_pending_while_composing:
  assumes "pending_while_composing s"
    and "compositionCount (run_steps h steps s) < 2 ^ 53"
  shows "pending_while_composing (run_steps h steps s)"
  using assms
proof (induction steps arbitrary: s)
  case Nil
  then show ?case by (simp add: run_steps_def)
next
  case (Cons x steps)
  have "compositionCount (run_step h x s) \<le> compositionCount (run_steps h steps (run_step h x s))"
    by (rule run_steps_count)
  with Cons.prems(2) have "compositionCount (run_step h x s) < 2 ^ 53"
    by (simp add: run_steps_Cons)
  with Cons.prems(1) have "pending_while_composing (run_step h x s)"
    by (rule run_step_pending_while_composing)
  with Cons.IH [of "run_step h x s"] Cons.prems(2) show ?case
    by (simp add: run_steps_Cons)
qed

text \<open>
  From a state in which nothing is pending, or in which the plugin is composing and every
  waiting finalize callback is stale, every run of handlers, frames and outside changes
  (below \<open>2 ^ 53\<close> compositions) keeps it so: an operation is pending only while the
  plugin is composing. The slot is filled after \<^verbatim>\<open>isComposing\<close> is set, and the
  flag is cleared only by a callback that \<^verbatim>\<open>onCompositionEnd\<close> registered after
  its flush emptied the slot. So \<^verbatim>\<open>onInput\<close> never meets a pending operation
  outside a composition: with one pending it returns at once, and outside a composition
  its flush finds nothing, returns \<^verbatim>\<open>false\<close>, and the event goes on exactly when
  the logical selection is focused.
\<close>

theorem pending_only_while_composing:
  assumes "pending_while_composing s"
    and "compositionCount (run_steps h steps s) < 2 ^ 53"
  shows "(nextNativeOperation (run_steps h steps s) \<noteq> None \<longrightarrow>
            isComposing (run_steps h steps s) \<and>
            onInput h ev (run_steps h steps s) = returns (run_steps h steps s)) \<and>
         (\<not> isComposing (run_steps h steps s) \<longrightarrow>
            nextNativeOperation (run_steps h steps s) = None \<and>
            flushQueuedNativeOperations h (run_steps h steps s) =
              (run_steps h steps s, Inr (Bool False)) \<and>
            onInput h ev (run_steps h steps s) =
              (if isBlurred (selection (env (run_steps h steps s)))
               then returns (run_steps h steps s)
               else callsNext ((run_steps h steps s)\<lparr>isUserActionPerformed := True\<rparr>)))"
proof -
  let ?s' = "run_steps h steps s"
  from assms have "pending_while_composing ?s'"
    by (rule run_steps_pending_while_composing)
  then have held: "nextNativeOperation ?s' \<noteq> None \<longrightarrow> isComposing ?s'"
    by (simp add: pending_while_composing_def)
  then show ?thesis
    by (auto simp add: onInput_def flush_nothing)
qed

text \<open>
  On the example page: after \<^verbatim>\<open>onCompositionStart\<close> the operation is pending,
  the plugin is composing and an input event is dropped; after
  \<^verbatim>\<open>onCompositionEnd\<close> and the next frame nothing is pending, the plugin is idle
  and an input event goes on.
\<close>

lemma ex_started:
  "st (onCompositionStart ex_host ex_event ex_idle) =
     ex_composing\<lparr>isUserActionPerformed := True\<rparr>"
proof -
  have parent: "parentElement ex_nodes 5 = Some 4"
    by code_simp
  have span: "closest ex_nodes (SELECTORS_KEY ex_host) 4 = Some 2"
    by code_simp
  show ?thesis
    by (simp add: onCompositionStart_def Let_def outcome_defs increment_def ex_composing_def
          ex_pending_def ex_idle_def ex_env_def ex_selection_def parent span)
qed

lemma pending_only_while_composing_example:
  "pending_while_composing ex_idle \<and>
   nextNativeOperation (run_steps ex_host [Handle OnCompositionStart ex_event] ex_idle) =
     Some \<lparr>op_selection = ex_selection, slateSpanNode = Some 2\<rparr> \<and>
   isComposing (run_steps ex_host [Handle OnCompositionStart ex_event] ex_idle) \<and>
   onInput ex_host ex_event (run_steps ex_host [Handle OnCompositionStart ex_event] ex_idle) =
     returns (run_steps ex_host [Handle OnCompositionStart ex_event] ex_idle) \<and>
   \<not> isComposing
       (run_steps ex_host
          [Handle OnCompositionStart ex_event, Handle OnCompositionEnd ex_event, AnimationFrame]
          ex_idle) \<and>
   nextNativeOperation
       (run_steps ex_host
          [Handle OnCompositionStart ex_event, Handle OnCompositionEnd ex_event, AnimationFrame]
          ex_idle) = None \<and>
   propagated (onInput ex_host ex_event
       (run_steps ex_host
          [Handle OnCompositionStart ex_event, Handle OnCompositionEnd ex_event, AnimationFrame]
          ex_idle))"
proof -
  let ?one = "[Handle OnCompositionStart ex_event] :: node list step list"
  let ?all = "[Handle OnCompositionStart ex_event, Handle OnCompositionEnd ex_event,
               AnimationFrame] :: node list step list"
  have start: "pending_while_composing ex_idle"
    by (simp add: pending_while_composing_def frames_in_past_def ex_idle_def)
  have one: "run_steps ex_host ?one ex_idle = ex_composing\<lparr>isUserActionPerformed := True\<rparr>"
    by (simp add: run_steps_def ex_started)
  have rest: "run_steps ex_host ?all ex_idle =
      run_steps ex_host [Handle OnCompositionEnd ex_event, AnimationFrame]
        (ex_composing\<lparr>isUserActionPerformed := True\<rparr>)"
    by (simp add: run_steps_def ex_started)
  have count1: "compositionCount (run_steps ex_host ?one ex_idle) < 2 ^ 53"
    unfolding one by (simp add: ex_composing_def ex_pending_def ex_idle_def)
  have "compositionCount (run_steps ex_host ?all ex_idle) = 1"
    unfolding rest by code_simp
  then have count3: "compositionCount (run_steps ex_host ?all ex_idle) < 2 ^ 53"
    by simp
  have held: "nextNativeOperation (run_steps ex_host ?one ex_idle) =
      Some \<lparr>op_selection = ex_selection, slateSpanNode = Some 2\<rparr>"
    unfolding one by (simp add: ex_composing_def ex_pending_def ex_idle_def)
  have over: "\<not> isComposing (run_steps ex_host ?all ex_idle)"
    unfolding rest by code_simp
  have focused: "\<not> isBlurred (selection (env (run_steps ex_host ?all ex_idle)))"
    unfolding rest by code_simp
  from pending_only_while_composing [OF start count1, of ex_event] held
  have first: "isComposing (run_steps ex_host ?one ex_idle) \<and>
      onInput ex_host ex_event (run_steps ex_host ?one ex_idle) =
        returns (run_steps ex_host ?one ex_idle)"
    by simp
  from pending_only_while_composing [OF start count3, of ex_event] over focused
  have second: "nextNativeOperation (run_steps ex_host ?all ex_idle) = None \<and>
      propagated (onInput ex_host ex_event (run_steps ex_host ?all ex_idle))"
    by (simp add: outcome_defs)
  from start held first over second show ?thesis by simp
qed

text \<open>
  \<^verbatim>\<open>onInput\<close> as a function of any state outside a composition: the result of
  the flush is never truthy, so the branch \<^verbatim>\<open>return next()\<close> is never taken, and
  after a flush that returns the event takes the generic path.
\<close>

lemma onInput_unfolds:
  assumes "\<not> isComposing s"
  shows "onInput h ev s =
     (case flushQueuedNativeOperations h s of
        (s1, Inl e) \<Rightarrow> throws s1 e
      | (s1, Inr r) \<Rightarrow>
          if isBlurred (selection (env s1)) then returns s1
          else callsNext (s1\<lparr>isUserActionPerformed := True\<rparr>))"
proof -
  obtain s1 res where run: "flushQueuedNativeOperations h s = (s1, res)"
    by (cases "flushQueuedNativeOperations h s")
  show ?thesis
  proof (cases res)
    case (Inl e)
    with assms run show ?thesis by (simp add: onInput_def)
  next
    case (Inr r)
    with run have "snd (flushQueuedNativeOperations h s) = Inr r" by simp
    then have "\<not> truthy r"
      by (auto simp add: flushQueuedNativeOperations_def Let_def split: option.splits if_splits)
    with assms run Inr show ?thesis by (simp add: onInput_def)
  qed
qed

text \<open>
  The flush that \<^verbatim>\<open>onCompositionEnd\<close> runs in the state the example reaches after
  \<^verbatim>\<open>onCompositionStart\<close> completes the merge and returns \<^verbatim>\<open>undefined\<close>.
\<close>

lemma ex_flush_at_composition_end:
  "snd (flushQueuedNativeOperations ex_host
          (st (onCompositionStart ex_host ex_event ex_idle)\<lparr>isUserActionPerformed := True\<rparr>)) =
     Inr Undefined \<and>
   thrown (onCompositionEnd ex_host ex_event (st (onCompositionStart ex_host ex_event ex_idle))) =
     None"
  unfolding ex_started by code_simp

subsection \<open>What a flush returns\<close>

text \<open>
  C2. With nothing pending, the flush returns \<^verbatim>\<open>false\<close> and the state is
  the same. With an operation pending, a flush that returns has consumed it and returns
  \<^verbatim>\<open>undefined\<close>, which the test in \<^verbatim>\<open>onInput\<close> reads as false: it never
  returns \<^verbatim>\<open>true\<close>.
\<close>

theorem flush_returns_false_or_undefined:
  "(nextNativeOperation s = None \<longrightarrow>
      flushQueuedNativeOperations h s = (s, Inr (Bool False))) \<and>
   (\<forall>r. nextNativeOperation s \<noteq> None \<and> snd (flushQueuedNativeOperations h s) = Inr r \<longrightarrow>
      r = Undefined \<and> \<not> truthy r \<and>
      nextNativeOperation (fst (flushQueuedNativeOperations h s)) = None)"
proof -
  have "r = Undefined" if "nextNativeOperation s \<noteq> None"
    and "snd (flushQueuedNativeOperations h s) = Inr r" for r
    using that
    by (auto simp add: flushQueuedNativeOperations_def Let_def split: option.splits if_splits)
  then show ?thesis
    using flush_nothing [of s h] flush_clears [of h s] by auto
qed

theorem flush_returns_undefined_at_pending:
  "nextNativeOperation ex_pending \<noteq> None \<and>
   snd (flushQueuedNativeOperations ex_host ex_pending) = Inr Undefined \<and>
   \<not> truthy Undefined \<and>
   nextNativeOperation (fst (flushQueuedNativeOperations ex_host ex_pending)) = None \<and>
   document (env (fst (flushQueuedNativeOperations ex_host ex_pending))) =
     [\<lparr>oid = 1, node_key = ''a'', node_text = [0x68, 0x69]\<rparr>] \<and>
   nextNativeOperation ex_idle = None \<and>
   flushQueuedNativeOperations ex_host ex_idle = (ex_idle, Inr (Bool False))"
proof -
  have pending: "nextNativeOperation ex_pending \<noteq> None"
    by (simp add: ex_pending_def ex_idle_def)
  have returned: "snd (flushQueuedNativeOperations ex_host ex_pending) = Inr Undefined"
    by code_simp
  have merged: "document (env (fst (flushQueuedNativeOperations ex_host ex_pending))) =
      [\<lparr>oid = 1, node_key = ''a'', node_text = [0x68, 0x69]\<rparr>]"
    by code_simp
  have idle: "nextNativeOperation ex_idle = None"
    by (simp add: ex_idle_def)
  from flush_returns_false_or_undefined [of ex_pending ex_host] pending returned
  have "\<not> truthy Undefined \<and>
      nextNativeOperation (fst (flushQueuedNativeOperations ex_host ex_pending)) = None"
    by blast
  moreover from flush_returns_false_or_undefined [of ex_idle ex_host] idle
  have "flushQueuedNativeOperations ex_host ex_idle = (ex_idle, Inr (Bool False))"
    by simp
  ultimately show ?thesis using pending returned merged idle by simp
qed

subsection \<open>One pending operation\<close>

text \<open>
  C3. The slot holds at most one operation. \<^verbatim>\<open>onCompositionStart\<close> with a
  collapsed selection and an operation stored throws and invokes no continuation, and
  whatever the selection it leaves a stored operation as it is. Every other handler, the
  flush, an animation frame and \<^verbatim>\<open>clearUserActionPerformed\<close> leave the slot as it
  was or empty.
\<close>

theorem single_pending_operation:
  "(isCollapsed (selection (env s)) \<and> nextNativeOperation s = Some pending \<longrightarrow>
      thrown (onCompositionStart h ev s) =
        Some (Error ''YOWIE WOWIE: already have a native op!'') \<and>
      \<not> propagated (onCompositionStart h ev s)) \<and>
   (nextNativeOperation s = Some pending \<longrightarrow>
      nextNativeOperation (st (onCompositionStart h ev s)) = Some pending) \<and>
   (hdl \<noteq> OnCompositionStart \<longrightarrow>
      nextNativeOperation (st (dispatch hdl h ev s)) = None \<or>
      nextNativeOperation (st (dispatch hdl h ev s)) = nextNativeOperation s) \<and>
   nextNativeOperation (fst (flushQueuedNativeOperations h s)) = None \<and>
   nextNativeOperation (run_frame s) = nextNativeOperation s \<and>
   nextNativeOperation (clearUserActionPerformed s) = nextNativeOperation s"
proof -
  have start: "(isCollapsed (selection (env s)) \<and> nextNativeOperation s = Some pending \<longrightarrow>
      thrown (onCompositionStart h ev s) =
        Some (Error ''YOWIE WOWIE: already have a native op!'') \<and>
      \<not> propagated (onCompositionStart h ev s)) \<and>
   (nextNativeOperation s = Some pending \<longrightarrow>
      nextNativeOperation (st (onCompositionStart h ev s)) = Some pending)"
    by (simp add: onCompositionStart_def Let_def outcome_defs)
  have frame: "nextNativeOperation (run_frame s) = nextNativeOperation s"
    by (simp add: run_frame_def fold_run_task_pending)
  have clear: "nextNativeOperation (clearUserActionPerformed s) = nextNativeOperation s"
    by (simp add: clearUserActionPerformed_def)
  from start frame clear dispatch_state [of hdl h ev s] flush_clears [of h s]
  show ?thesis by blast
qed

theorem single_pending_operation_witness:
  "isCollapsed (selection (env ex_pending)) \<and>
   nextNativeOperation ex_pending =
     Some \<lparr>op_selection = ex_selection, slateSpanNode = Some 2\<rparr> \<and>
   thrown (onCompositionStart ex_host ex_event ex_pending) =
     Some (Error ''YOWIE WOWIE: already have a native op!'') \<and>
   nextNativeOperation (st (onCompositionStart ex_host ex_event ex_pending)) =
     Some \<lparr>op_selection = ex_selection, slateSpanNode = Some 2\<rparr> \<and>
   nextNativeOperation (st (dispatch OnKeyDown ex_host ex_event ex_idle)) = None"
proof -
  have collapsed: "isCollapsed (selection (env ex_pending))"
    by (simp add: ex_pending_def ex_idle_def ex_env_def ex_selection_def)
  have pending: "nextNativeOperation ex_pending =
      Some \<lparr>op_selection = ex_selection, slateSpanNode = Some 2\<rparr>"
    by (simp add: ex_pending_def ex_idle_def)
  have idle: "nextNativeOperation ex_idle = None"
    by (simp add: ex_idle_def)
  have other: "OnKeyDown \<noteq> OnCompositionStart"
    by simp
  from single_pending_operation
         [of ex_pending "\<lparr>op_selection = ex_selection, slateSpanNode = Some 2\<rparr>"
             ex_host ex_event OnKeyDown]
       single_pending_operation [of ex_idle _ ex_host ex_event OnKeyDown]
       collapsed pending idle other
  show ?thesis by simp
qed

subsection \<open>A composition that starts on a range\<close>

text \<open>
  C4. When the selection is not collapsed, \<^verbatim>\<open>onCompositionStart\<close> invokes the
  editor's delete command on the value it found, captures nothing (the slot is as it
  was), throws nothing and calls the continuation; the composition counts as started.
\<close>

theorem composition_start_on_range:
  assumes "\<not> isCollapsed (selection (env s))"
  shows "env (st (onCompositionStart h ev s)) = editorDelete h (env s) \<and>
         calls (st (onCompositionStart h ev s)) = calls s @ [Delete] \<and>
         nextNativeOperation (st (onCompositionStart h ev s)) = nextNativeOperation s \<and>
         thrown (onCompositionStart h ev s) = None \<and>
         propagated (onCompositionStart h ev s) \<and>
         isComposing (st (onCompositionStart h ev s)) \<and>
         compositionCount (st (onCompositionStart h ev s)) = increment (compositionCount s)"
  using assms by (simp add: onCompositionStart_def Let_def outcome_defs)

theorem composition_start_on_range_witness:
  "\<not> isCollapsed (selection (env ex_expanded)) \<and>
   document (env (st (onCompositionStart ex_host ex_event ex_expanded))) =
     [\<lparr>oid = 1, node_key = ''a'', node_text = []\<rparr>] \<and>
   calls (st (onCompositionStart ex_host ex_event ex_expanded)) = [Delete] \<and>
   nextNativeOperation (st (onCompositionStart ex_host ex_event ex_expanded)) = None \<and>
   propagated (onCompositionStart ex_host ex_event ex_expanded)"
proof -
  have expanded: "\<not> isCollapsed (selection (env ex_expanded))"
    by (simp add: ex_expanded_def ex_idle_def)
  have deleted: "document (editorDelete ex_host (env ex_expanded)) =
      [\<lparr>oid = 1, node_key = ''a'', node_text = []\<rparr>]"
    by code_simp
  have before: "calls ex_expanded = [] \<and> nextNativeOperation ex_expanded = None"
    by (simp add: ex_expanded_def ex_idle_def)
  from composition_start_on_range [OF expanded, of ex_host ex_event] expanded deleted before
  show ?thesis by simp
qed

subsection \<open>The finalize task and the composition count\<close>

text \<open>
  C5. The callback that \<^verbatim>\<open>onCompositionEnd\<close> hands to the next animation
  frame captures the current count; run later, it changes nothing when the count has
  grown and clears \<^verbatim>\<open>isComposing\<close> otherwise. The count never decreases along
  a run of handlers, frames and outside changes. Once a later \<^verbatim>\<open>onCompositionStart\<close> has run
  (below \<open>2 ^ 53\<close>, where the increment still counts), the count is above the captured
  one, the stale callback is a no-op and the plugin is composing; and a frame that
  follows a composition start never clears \<^verbatim>\<open>isComposing\<close>, since every waiting
  callback captured an earlier count.
\<close>

theorem stale_finalize_is_noop:
  "run_task (FinalizeComposition n) s =
     (if n < compositionCount s then s else s\<lparr>isComposing := False\<rparr>) \<and>
   (thrown (onCompositionEnd h ev s) = None \<longrightarrow>
      frames (st (onCompositionEnd h ev s)) =
        frames s @ [FinalizeComposition (compositionCount s)] \<and>
      compositionCount (st (onCompositionEnd h ev s)) = compositionCount s \<and>
      isComposing (st (onCompositionEnd h ev s)) = isComposing s) \<and>
   compositionCount s \<le> compositionCount (run_steps h steps s) \<and>
   (compositionCount (run_steps h steps s) < 2 ^ 53 \<longrightarrow>
      compositionCount s <
        compositionCount (run_steps h (steps @ Handle OnCompositionStart ev # later) s) \<and>
      run_task (FinalizeComposition (compositionCount s))
        (run_steps h (steps @ Handle OnCompositionStart ev # later) s) =
        run_steps h (steps @ Handle OnCompositionStart ev # later) s \<and>
      isComposing (run_steps h (steps @ [Handle OnCompositionStart ev]) s)) \<and>
   (frames_in_past s \<longrightarrow> frames_in_past (run_steps h steps s)) \<and>
   (frames_in_past s \<and> compositionCount s < 2 ^ 53 \<longrightarrow>
      isComposing (run_frame (st (onCompositionStart h ev s))))"
proof -
  let ?mid = "run_steps h steps s"
  let ?started = "st (onCompositionStart h ev ?mid)"
  let ?end = "run_steps h (steps @ Handle OnCompositionStart ev # later) s"
  have task: "run_task (FinalizeComposition n) s =
     (if n < compositionCount s then s else s\<lparr>isComposing := False\<rparr>)"
    by simp
  have ended: "thrown (onCompositionEnd h ev s) = None \<longrightarrow>
      frames (st (onCompositionEnd h ev s)) =
        frames s @ [FinalizeComposition (compositionCount s)] \<and>
      compositionCount (st (onCompositionEnd h ev s)) = compositionCount s \<and>
      isComposing (st (onCompositionEnd h ev s)) = isComposing s"
    using onCompositionEnd_state [of h ev s] by auto
  have mono: "compositionCount s \<le> compositionCount ?mid"
    by (rule run_steps_count)
  have split: "?end = run_steps h later ?started"
    by (simp add: run_steps_append run_steps_Cons)
  have newer: "compositionCount s < compositionCount ?end
      \<and> run_task (FinalizeComposition (compositionCount s)) ?end = ?end
      \<and> isComposing (run_steps h (steps @ [Handle OnCompositionStart ev]) s)"
    if below: "compositionCount ?mid < 2 ^ 53"
  proof -
    from below have "compositionCount ?mid < compositionCount ?started"
      using onCompositionStart_state [of h ev ?mid] by (simp add: increment_def)
    also have "\<dots> \<le> compositionCount ?end"
      unfolding split by (rule run_steps_count)
    finally have "compositionCount ?mid < compositionCount ?end" .
    with mono have "compositionCount s < compositionCount ?end" by simp
    moreover have "isComposing (run_steps h (steps @ [Handle OnCompositionStart ev]) s)"
      using onCompositionStart_state [of h ev ?mid]
      by (simp add: run_steps_append run_steps_Cons run_steps_def)
    ultimately show ?thesis by simp
  qed
  have inv: "frames_in_past (run_steps h steps s)" if "frames_in_past s"
    using that unfolding run_steps_def
  proof (induction steps arbitrary: s)
    case Nil
    then show ?case by simp
  next
    case (Cons x steps)
    from Cons.prems have "frames_in_past (run_step h x s)"
      by (rule run_step_frames_in_past)
    then show ?case using Cons.IH by simp
  qed
  have frame: "isComposing (run_frame (st (onCompositionStart h ev s)))"
    if past: "frames_in_past s" and below: "compositionCount s < 2 ^ 53"
  proof -
    let ?s' = "st (onCompositionStart h ev s)"
    from onCompositionStart_state [of h ev s] below
    have facts: "frames ?s' = frames s" "isComposing ?s'"
      "compositionCount s < compositionCount ?s'"
      by (simp_all add: increment_def)
    from past have "list_all (task_in_past (compositionCount s)) (frames ?s')"
      by (simp add: frames_in_past_def facts)
    then have "isComposing (fold run_task (frames ?s') (?s'\<lparr>frames := []\<rparr>)) =
        isComposing (?s'\<lparr>frames := []\<rparr>)"
      by (rule fold_stale_tasks) (simp add: facts)
    with facts show ?thesis by (simp add: run_frame_def)
  qed
  from task ended mono newer inv frame show ?thesis by blast
qed

theorem stale_finalize_is_noop_witness:
  "thrown (onCompositionEnd ex_host ex_event ex_composing) = None \<and>
   frames (st (onCompositionEnd ex_host ex_event ex_composing)) = [FinalizeComposition 1] \<and>
   \<not> isComposing (run_frame (st (onCompositionEnd ex_host ex_event ex_composing))) \<and>
   isComposing (run_frame (st (onCompositionStart ex_host ex_event
     (st (onCompositionEnd ex_host ex_event ex_composing))))) \<and>
   run_task (FinalizeComposition 1)
     (run_steps ex_host [Handle OnCompositionEnd ex_event, Handle OnCompositionStart ex_event]
        ex_composing) =
     run_steps ex_host [Handle OnCompositionEnd ex_event, Handle OnCompositionStart ex_event]
       ex_composing"
proof -
  let ?ended = "st (onCompositionEnd ex_host ex_event ex_composing)"
  have before: "compositionCount ex_composing = 1" "frames ex_composing = []"
    "isComposing ex_composing"
    by (simp_all add: ex_composing_def ex_pending_def ex_idle_def)
  have quiet: "thrown (onCompositionEnd ex_host ex_event ex_composing) = None"
    by code_simp
  note main = stale_finalize_is_noop
  from main [where n = 1 and s = ex_composing and h = ex_host and ev = ex_event
      and steps = "[]" and later = "[]"] quiet before
  have ended: "frames ?ended = [FinalizeComposition 1]" "compositionCount ?ended = 1"
    "isComposing ?ended"
    by simp_all
  have steps: "run_steps ex_host [Handle OnCompositionEnd ex_event] ex_composing = ?ended"
    by (simp add: run_steps_def)
  from main [where n = 1 and s = ex_composing and h = ex_host and ev = ex_event
      and steps = "[Handle OnCompositionEnd ex_event]" and later = "[]"]
  have stale: "run_task (FinalizeComposition 1)
     (run_steps ex_host [Handle OnCompositionEnd ex_event, Handle OnCompositionStart ex_event]
        ex_composing) =
     run_steps ex_host [Handle OnCompositionEnd ex_event, Handle OnCompositionStart ex_event]
       ex_composing"
    by (simp add: steps ended before)
  have past: "frames_in_past ?ended"
    by (simp add: frames_in_past_def ended)
  from main [where n = 1 and s = "?ended" and h = ex_host and ev = ex_event
      and steps = "[]" and later = "[]"] past ended
  have second: "isComposing (run_frame (st (onCompositionStart ex_host ex_event ?ended)))"
    by simp
  from main [where n = 1 and s = "?ended" and h = ex_host and ev = ex_event
      and steps = "[]" and later = "[]"] ended
  have reset: "\<not> isComposing (run_frame ?ended)"
    by (simp add: run_frame_def)
  from quiet ended stale second reset show ?thesis by simp
qed

subsection \<open>The text a flush writes\<close>

text \<open>
  C6. A flush of a Pending Native Operation invokes \<^verbatim>\<open>insertTextAtRange\<close> at most
  once, and a flush that returns has invoked it, followed by the selection. The text
  it writes is the text content of the container, read after the text runs were
  cleaned, without its zero-width placeholder characters; the range runs from offset 0
  to the length of the text of the logical node that the key of the snapshot names, on
  that key and its path. So the text holds no placeholder character, and replacing the
  whole text of the node by it leaves exactly it.
\<close>

theorem flush_writes_cleaned_text:
  assumes "nextNativeOperation s = Some nativeOp"
    and "flushQueuedNativeOperations h s = (s', res)"
  shows "(\<forall>rng txt. InsertTextAtRange rng txt \<in> set (drop (length (calls s)) (calls s')) \<longrightarrow>
            (\<exists>span n.
               slateSpanNode nativeOp = Some span \<and>
               getNode h (document (env s)) (key (anchor (op_selection nativeOp))) = Some n \<and>
               txt = strip_zero_width
                       (textContentOf (nodes (cleanContainer h span (env s))) span) \<and>
               rng = \<lparr>anchor = \<lparr>key = key (anchor (op_selection nativeOp)),
                                path = getPath h (document (env s))
                                         (key (anchor (op_selection nativeOp))),
                                offset = 0\<rparr>,
                      focus = \<lparr>key = key (anchor (op_selection nativeOp)),
                               path = getPath h (document (env s))
                                        (key (anchor (op_selection nativeOp))),
                               offset = length (node_text n)\<rparr>\<rparr> \<and>
               ZERO_WIDTH_CHAR \<notin> set txt \<and>
               replaceText rng txt (node_text n) = txt)) \<and>
         (\<forall>r. res = Inr r \<longrightarrow>
            (\<exists>rng txt sel.
               drop (length (calls s)) (calls s') = [InsertTextAtRange rng txt, Select sel]))"
  using assms
  by (auto simp add: flushQueuedNativeOperations_def Let_def strip_zero_width_def
        replaceText_def split: option.splits if_splits)

theorem flush_writes_cleaned_text_witness:
  "nextNativeOperation ex_pending =
     Some \<lparr>op_selection = ex_selection, slateSpanNode = Some 2\<rparr> \<and>
   calls (fst (flushQueuedNativeOperations ex_host ex_pending)) =
     [InsertTextAtRange
        \<lparr>anchor = \<lparr>key = ''a'', path = Some [0], offset = 0\<rparr>,
         focus = \<lparr>key = ''a'', path = Some [0], offset = 1\<rparr>\<rparr> [0x68, 0x69],
      Select
        \<lparr>anchor = \<lparr>key = ''a'', path = Some [0], offset = 2\<rparr>,
         focus = \<lparr>key = ''a'', path = Some [0], offset = 2\<rparr>\<rparr>] \<and>
   ZERO_WIDTH_CHAR \<notin> set [0x68, 0x69 :: 16 word] \<and>
   replaceText
     \<lparr>anchor = \<lparr>key = ''a'', path = Some [0], offset = 0\<rparr>,
      focus = \<lparr>key = ''a'', path = Some [0], offset = 1\<rparr>\<rparr> [0x68, 0x69] [0x68] =
     [0x68, 0x69]"
proof -
  let ?op = "\<lparr>op_selection = ex_selection, slateSpanNode = Some 2\<rparr>"
  let ?rng = "\<lparr>anchor = \<lparr>key = ''a'', path = Some [0], offset = 0\<rparr>,
               focus = \<lparr>key = ''a'', path = Some [0], offset = (1::nat)\<rparr>\<rparr>"
  let ?sel = "\<lparr>anchor = \<lparr>key = ''a'', path = Some [0], offset = 2\<rparr>,
               focus = \<lparr>key = ''a'', path = Some [0], offset = (2::nat)\<rparr>\<rparr>"
  have pending: "nextNativeOperation ex_pending = Some ?op"
    by (simp add: ex_pending_def ex_idle_def)
  have run: "flushQueuedNativeOperations ex_host ex_pending =
      (fst (flushQueuedNativeOperations ex_host ex_pending),
       snd (flushQueuedNativeOperations ex_host ex_pending))"
    by simp
  have log: "calls (fst (flushQueuedNativeOperations ex_host ex_pending)) =
      [InsertTextAtRange ?rng [0x68, 0x69], Select ?sel]"
    by code_simp
  have before: "calls ex_pending = []"
    by (simp add: ex_pending_def ex_idle_def)
  have written: "InsertTextAtRange ?rng [0x68, 0x69] \<in>
      set (drop (length (calls ex_pending))
             (calls (fst (flushQueuedNativeOperations ex_host ex_pending))))"
    by (simp add: log before)
  from flush_writes_cleaned_text [OF pending run] written
  obtain n where "ZERO_WIDTH_CHAR \<notin> set [0x68, 0x69 :: 16 word]"
    and "replaceText ?rng [0x68, 0x69] (node_text n) = [0x68, 0x69]"
    and "getNode ex_host (document (env ex_pending))
           (key (anchor (op_selection ?op))) = Some n"
    by blast
  moreover have "getNode ex_host (document (env ex_pending))
           (key (anchor (op_selection ?op))) =
        Some \<lparr>oid = 0, node_key = ''a'', node_text = [0x68]\<rparr>"
    by code_simp
  ultimately show ?thesis
    using pending log by simp
qed

subsection \<open>The fatal checks of a flush\<close>

text \<open>
  C7. With an operation pending, the flush throws: a \<^verbatim>\<open>TypeError\<close> when there
  is no native anchor or it has no parent element; an error when no element with a key
  encloses the anchor; an error when that element is not the one captured at composition
  start; an error when the logical node found from that element is not the one the key
  of the snapshot names. Whatever the flush throws leaves \<^verbatim>\<open>onCompositionEnd\<close>
  and, outside a composition, \<^verbatim>\<open>onInput\<close>, and no continuation is invoked.
\<close>

theorem flush_fatal_checks:
  assumes "nextNativeOperation s = Some nativeOp"
  shows "(anchorNode (env s) = None \<longrightarrow>
            snd (flushQueuedNativeOperations h s) = Inl TypeError) \<and>
         (\<forall>textNode. anchorNode (env s) = Some textNode \<and>
            parentElement (nodes (env s)) textNode = None \<longrightarrow>
            snd (flushQueuedNativeOperations h s) = Inl TypeError) \<and>
         (\<forall>textNode parent. anchorNode (env s) = Some textNode \<and>
            parentElement (nodes (env s)) textNode = Some parent \<and>
            closest (nodes (env s)) (SELECTORS_KEY h) parent = None \<longrightarrow>
            snd (flushQueuedNativeOperations h s) =
              Inl (Error ''YOWIE WOWIE: could not find slate span'')) \<and>
         (\<forall>textNode parent current. anchorNode (env s) = Some textNode \<and>
            parentElement (nodes (env s)) textNode = Some parent \<and>
            closest (nodes (env s)) (SELECTORS_KEY h) parent = Some current \<and>
            slateSpanNode nativeOp \<noteq> Some current \<longrightarrow>
            snd (flushQueuedNativeOperations h s) =
              Inl (Error ''YOWIE WOWIE: slate span node mismatch'')) \<and>
         (\<forall>textNode parent current. anchorNode (env s) = Some textNode \<and>
            parentElement (nodes (env s)) textNode = Some parent \<and>
            closest (nodes (env s)) (SELECTORS_KEY h) parent = Some current \<and>
            slateSpanNode nativeOp = Some current \<and>
            findNode h (env s) current \<noteq>
              getNode h (document (env s)) (key (anchor (op_selection nativeOp))) \<longrightarrow>
            snd (flushQueuedNativeOperations h s) =
              Inl (Error ''YOWIE WOWIE: Slate nodes do not match up!'')) \<and>
         (\<forall>e. snd (flushQueuedNativeOperations h s) = Inl e \<longrightarrow>
            thrown (onCompositionEnd h ev s) = Some e \<and>
            \<not> propagated (onCompositionEnd h ev s) \<and>
            (\<not> isComposing s \<longrightarrow>
               thrown (onInput h ev s) = Some e \<and> \<not> propagated (onInput h ev s)))"
proof -
  have checks: "(anchorNode (env s) = None \<longrightarrow>
            snd (flushQueuedNativeOperations h s) = Inl TypeError) \<and>
         (\<forall>textNode. anchorNode (env s) = Some textNode \<and>
            parentElement (nodes (env s)) textNode = None \<longrightarrow>
            snd (flushQueuedNativeOperations h s) = Inl TypeError) \<and>
         (\<forall>textNode parent. anchorNode (env s) = Some textNode \<and>
            parentElement (nodes (env s)) textNode = Some parent \<and>
            closest (nodes (env s)) (SELECTORS_KEY h) parent = None \<longrightarrow>
            snd (flushQueuedNativeOperations h s) =
              Inl (Error ''YOWIE WOWIE: could not find slate span'')) \<and>
         (\<forall>textNode parent current. anchorNode (env s) = Some textNode \<and>
            parentElement (nodes (env s)) textNode = Some parent \<and>
            closest (nodes (env s)) (SELECTORS_KEY h) parent = Some current \<and>
            slateSpanNode nativeOp \<noteq> Some current \<longrightarrow>
            snd (flushQueuedNativeOperations h s) =
              Inl (Error ''YOWIE WOWIE: slate span node mismatch'')) \<and>
         (\<forall>textNode parent current. anchorNode (env s) = Some textNode \<and>
            parentElement (nodes (env s)) textNode = Some parent \<and>
            closest (nodes (env s)) (SELECTORS_KEY h) parent = Some current \<and>
            slateSpanNode nativeOp = Some current \<and>
            findNode h (env s) current \<noteq>
              getNode h (document (env s)) (key (anchor (op_selection nativeOp))) \<longrightarrow>
            snd (flushQueuedNativeOperations h s) =
              Inl (Error ''YOWIE WOWIE: Slate nodes do not match up!''))"
    using assms by (simp add: flushQueuedNativeOperations_def Let_def)
  with onCompositionEnd_throws [of h s _ ev] onInput_throws [of h s _ ev] show ?thesis
    by blast
qed

theorem flush_fatal_checks_witness:
  "snd (flushQueuedNativeOperations ex_host ex_no_span) =
     Inl (Error ''YOWIE WOWIE: could not find slate span'') \<and>
   snd (flushQueuedNativeOperations ex_host ex_mismatch) =
     Inl (Error ''YOWIE WOWIE: slate span node mismatch'') \<and>
   snd (flushQueuedNativeOperations ex_host ex_desync) =
     Inl (Error ''YOWIE WOWIE: Slate nodes do not match up!'') \<and>
   thrown (onCompositionEnd ex_host ex_event ex_mismatch) =
     Some (Error ''YOWIE WOWIE: slate span node mismatch'') \<and>
   \<not> propagated (onCompositionEnd ex_host ex_event ex_mismatch) \<and>
   thrown (onInput ex_host ex_event ex_mismatch) =
     Some (Error ''YOWIE WOWIE: slate span node mismatch'')"
proof -
  let ?op = "\<lparr>op_selection = ex_selection, slateSpanNode = Some 2\<rparr>"
  let ?leaf = "\<lparr>op_selection = ex_selection, slateSpanNode = Some 3\<rparr>"
  let ?other = "\<lparr>op_selection = ex_selection\<lparr>anchor := ex_point\<lparr>key := ''b''\<rparr>\<rparr>,
                 slateSpanNode = Some 2\<rparr>"
  have no_span: "nextNativeOperation ex_no_span = Some ?op"
    "anchorNode (env ex_no_span) = Some 7"
    "parentElement (nodes (env ex_no_span)) 7 = Some 1"
    "closest (nodes (env ex_no_span)) (SELECTORS_KEY ex_host) 1 = None"
    by code_simp+
  have mismatch: "nextNativeOperation ex_mismatch = Some ?leaf"
    "anchorNode (env ex_mismatch) = Some 5"
    "parentElement (nodes (env ex_mismatch)) 5 = Some 4"
    "closest (nodes (env ex_mismatch)) (SELECTORS_KEY ex_host) 4 = Some 2"
    "slateSpanNode ?leaf \<noteq> Some 2"
    "\<not> isComposing ex_mismatch"
    by code_simp+
  have desync: "nextNativeOperation ex_desync = Some ?other"
    "anchorNode (env ex_desync) = Some 5"
    "parentElement (nodes (env ex_desync)) 5 = Some 4"
    "closest (nodes (env ex_desync)) (SELECTORS_KEY ex_host) 4 = Some 2"
    "slateSpanNode ?other = Some 2"
    "findNode ex_host (env ex_desync) 2 \<noteq>
       getNode ex_host (document (env ex_desync)) (key (anchor (op_selection ?other)))"
    by code_simp+
  from flush_fatal_checks [OF no_span(1), of ex_host ex_event] no_span
  have first: "snd (flushQueuedNativeOperations ex_host ex_no_span) =
      Inl (Error ''YOWIE WOWIE: could not find slate span'')"
    by blast
  from flush_fatal_checks [OF mismatch(1), of ex_host ex_event] mismatch
  have second: "snd (flushQueuedNativeOperations ex_host ex_mismatch) =
      Inl (Error ''YOWIE WOWIE: slate span node mismatch'')"
    by blast
  from flush_fatal_checks [OF mismatch(1), of ex_host ex_event] second mismatch(6)
  have loud: "thrown (onCompositionEnd ex_host ex_event ex_mismatch) =
      Some (Error ''YOWIE WOWIE: slate span node mismatch'') \<and>
    \<not> propagated (onCompositionEnd ex_host ex_event ex_mismatch) \<and>
    thrown (onInput ex_host ex_event ex_mismatch) =
      Some (Error ''YOWIE WOWIE: slate span node mismatch'')"
    by blast
  from flush_fatal_checks [OF desync(1), of ex_host ex_event] desync
  have third: "snd (flushQueuedNativeOperations ex_host ex_desync) =
      Inl (Error ''YOWIE WOWIE: Slate nodes do not match up!'')"
    by blast
  from first second third loud show ?thesis by simp
qed

subsection \<open>onBlur\<close>

text \<open>
  C8, as amended. \<^verbatim>\<open>onBlur\<close> calls the continuation exactly when no guard
  fires: no copy is in flight, the editor is not read-only, the active element of the
  window has changed, and the related target, if there is one, is not the root of the
  editor, is an element, has not the spacer attribute, and is not a descendant of the
  root that belongs to a logical node which is not void. An element with the spacer
  attribute stops the blur wherever it is, inside or outside the editor, and so does a
  descendant of the root in a node that is not void, editable or not. A related target
  outside the editor that is an element without the spacer attribute lets the blur
  through when the first three guards are quiet. The handler changes no state; it throws
  a \<^verbatim>\<open>TypeError\<close> exactly when the first three guards are quiet and the related
  target is neither the root nor an element. Right after \<^verbatim>\<open>onCopy\<close> or
  \<^verbatim>\<open>onCut\<close> the blur is ignored, and the next animation frame ends the guard of
  \<^verbatim>\<open>onCopy\<close>.
\<close>

theorem onBlur_propagates_iff:
  "(propagated (onBlur h ev s) \<longleftrightarrow>
      \<not> isCopying s \<and> \<not> readOnly s \<and> activeElement s \<noteq> docActiveElement (env s) \<and>
      (\<forall>rt. relatedTarget ev = Some rt \<longrightarrow>
         rt \<noteq> findDOMNode h (env s) \<and>
         \<not> isTextNode (nodes (env s)) rt \<and>
         \<not> elementHasAttribute (nodes (env s)) rt (DATA_ATTRS_SPACER h) \<and>
         \<not> (contains (nodes (env s)) (findDOMNode h (env s)) rt \<and>
            (\<exists>n. findNode h (env s) rt = Some n \<and> \<not> isVoid h (env s) n)))) \<and>
   (\<forall>rt. \<not> isCopying s \<and> \<not> readOnly s \<and> activeElement s \<noteq> docActiveElement (env s) \<and>
      relatedTarget ev = Some rt \<and> rt \<noteq> findDOMNode h (env s) \<and>
      \<not> contains (nodes (env s)) (findDOMNode h (env s)) rt \<and>
      \<not> isTextNode (nodes (env s)) rt \<and>
      \<not> elementHasAttribute (nodes (env s)) rt (DATA_ATTRS_SPACER h) \<longrightarrow>
      propagated (onBlur h ev s)) \<and>
   (\<forall>rt. relatedTarget ev = Some rt \<and>
      elementHasAttribute (nodes (env s)) rt (DATA_ATTRS_SPACER h) \<longrightarrow>
      \<not> propagated (onBlur h ev s)) \<and>
   (\<forall>rt n. relatedTarget ev = Some rt \<and>
      contains (nodes (env s)) (findDOMNode h (env s)) rt \<and>
      findNode h (env s) rt = Some n \<and> \<not> isVoid h (env s) n \<longrightarrow>
      \<not> propagated (onBlur h ev s)) \<and>
   st (onBlur h ev s) = s \<and>
   (thrown (onBlur h ev s) =
      (if \<not> isCopying s \<and> \<not> readOnly s \<and> activeElement s \<noteq> docActiveElement (env s) \<and>
          (\<exists>rt. relatedTarget ev = Some rt \<and> rt \<noteq> findDOMNode h (env s) \<and>
             isTextNode (nodes (env s)) rt)
       then Some TypeError else None)) \<and>
   \<not> propagated (onBlur h ev (st (onCopy h ev' s))) \<and>
   \<not> propagated (onBlur h ev (st (onCut h ev' s))) \<and>
   \<not> isCopying (run_frame (st (onCopy h ev' s)))"
proof -
  have guards: "propagated (onBlur h ev s) \<longleftrightarrow>
      \<not> isCopying s \<and> \<not> readOnly s \<and> activeElement s \<noteq> docActiveElement (env s) \<and>
      (\<forall>rt. relatedTarget ev = Some rt \<longrightarrow>
         rt \<noteq> findDOMNode h (env s) \<and>
         \<not> isTextNode (nodes (env s)) rt \<and>
         \<not> elementHasAttribute (nodes (env s)) rt (DATA_ATTRS_SPACER h) \<and>
         \<not> (contains (nodes (env s)) (findDOMNode h (env s)) rt \<and>
            (\<exists>n. findNode h (env s) rt = Some n \<and> \<not> isVoid h (env s) n)))"
    by (auto simp add: onBlur_def Let_def outcome_defs split: option.splits)
  have same: "st (onBlur h ev s) = s"
    by (simp add: onBlur_def Let_def outcome_defs split: option.splits)
  have loud: "thrown (onBlur h ev s) =
      (if \<not> isCopying s \<and> \<not> readOnly s \<and> activeElement s \<noteq> docActiveElement (env s) \<and>
          (\<exists>rt. relatedTarget ev = Some rt \<and> rt \<noteq> findDOMNode h (env s) \<and>
             isTextNode (nodes (env s)) rt)
       then Some TypeError else None)"
    by (auto simp add: onBlur_def Let_def outcome_defs split: option.splits)
  have copy: "\<not> propagated (onBlur h ev (st (onCopy h ev' s)))"
    by (simp add: onBlur_def onCopy_def outcome_defs)
  have cut: "\<not> propagated (onBlur h ev (st (onCut h ev' s)))"
    by (simp add: onBlur_def onCut_def outcome_defs)
  have frame: "\<not> isCopying (run_frame (st (onCopy h ev' s)))"
    by (simp add: run_frame_def onCopy_def outcome_defs fold_clear_copying)
  from same loud copy cut frame show ?thesis
    unfolding guards by auto
qed

theorem onBlur_propagates_iff_witness:
  "\<not> isCopying ex_idle \<and> \<not> readOnly ex_idle \<and>
   activeElement ex_idle \<noteq> docActiveElement (env ex_idle) \<and>
   \<not> contains (nodes (env ex_idle)) (findDOMNode ex_host (env ex_idle)) 8 \<and>
   \<not> isTextNode (nodes (env ex_idle)) 8 \<and>
   \<not> elementHasAttribute (nodes (env ex_idle)) 8 (DATA_ATTRS_SPACER ex_host) \<and>
   propagated (onBlur ex_host (ex_event\<lparr>relatedTarget := Some 8\<rparr>) ex_idle) \<and>
   elementHasAttribute (nodes (env ex_idle)) 7 (DATA_ATTRS_SPACER ex_host) \<and>
   \<not> propagated (onBlur ex_host (ex_event\<lparr>relatedTarget := Some 7\<rparr>) ex_idle) \<and>
   isTextNode (nodes (env ex_idle)) 5 \<and>
   thrown (onBlur ex_host (ex_event\<lparr>relatedTarget := Some 5\<rparr>) ex_idle) = Some TypeError \<and>
   \<not> propagated (onBlur ex_host (ex_event\<lparr>relatedTarget := Some 8\<rparr>)
       (st (onCopy ex_host ex_event ex_idle)))"
proof -
  have state: "\<not> isCopying ex_idle \<and> \<not> readOnly ex_idle \<and>
      activeElement ex_idle \<noteq> docActiveElement (env ex_idle)"
    by (simp add: ex_idle_def ex_env_def)
  have root: "findDOMNode ex_host (env ex_idle) = 1"
    by (simp add: ex_host_def)
  have outside: "\<not> contains (nodes (env ex_idle)) 1 8"
    by code_simp
  have element: "\<not> isTextNode (nodes (env ex_idle)) 8"
    by code_simp
  have plain: "\<not> elementHasAttribute (nodes (env ex_idle)) 8 (DATA_ATTRS_SPACER ex_host)"
    by code_simp
  have spacer: "elementHasAttribute (nodes (env ex_idle)) 7 (DATA_ATTRS_SPACER ex_host)"
    by code_simp
  have textual: "isTextNode (nodes (env ex_idle)) 5"
    by code_simp
  note main = onBlur_propagates_iff
  have "propagated (onBlur ex_host (ex_event\<lparr>relatedTarget := Some 8\<rparr>) ex_idle)"
    using main [of ex_host "ex_event\<lparr>relatedTarget := Some 8\<rparr>" ex_idle ex_event]
      state root outside element plain
    by simp
  moreover have "\<not> propagated (onBlur ex_host (ex_event\<lparr>relatedTarget := Some 7\<rparr>) ex_idle)"
    using main [of ex_host "ex_event\<lparr>relatedTarget := Some 7\<rparr>" ex_idle ex_event] spacer
    by simp
  moreover have "thrown (onBlur ex_host (ex_event\<lparr>relatedTarget := Some 5\<rparr>) ex_idle) =
      Some TypeError"
    using main [of ex_host "ex_event\<lparr>relatedTarget := Some 5\<rparr>" ex_idle ex_event]
      state root textual
    by simp
  moreover have "\<not> propagated (onBlur ex_host (ex_event\<lparr>relatedTarget := Some 8\<rparr>)
       (st (onCopy ex_host ex_event ex_idle)))"
    using main [of ex_host "ex_event\<lparr>relatedTarget := Some 8\<rparr>" ex_idle ex_event]
    by blast
  ultimately show ?thesis using state root outside element plain spacer textual by simp
qed

text \<open>
  The claim as first stated fails on a page with two editors, once the first editor
  was focused and the focus has left it: with the spacer of the second editor (10) as
  related target, which is outside the first editor, the blur is not propagated; and
  with the part that is not editable (6) of a node that is not void, it is not
  propagated either.
\<close>

theorem onBlur_spacer_counterexample:
  "\<not> isCopying ex_blurring \<and> \<not> readOnly ex_blurring \<and>
   activeElement ex_blurring = Some 1 \<and> docActiveElement (env ex_blurring) = Some 0 \<and>
   findDOMNode ex_host (env ex_blurring) = 1 \<and>
   \<not> contains (nodes (env ex_blurring)) 1 10 \<and>
   \<not> propagated (onBlur ex_host (ex_event\<lparr>relatedTarget := Some 10\<rparr>) ex_blurring) \<and>
   contains (nodes (env ex_blurring)) 1 6 \<and>
   find_among 6 (nodes (env ex_blurring)) =
     Some (DElem 6 ''SPAN'' [(''contenteditable'', ''false'')] [DText 7 [0x78]]) \<and>
   findNode ex_host (env ex_blurring) 6 =
     Some \<lparr>oid = 0, node_key = ''a'', node_text = [0x68]\<rparr> \<and>
   \<not> isVoid ex_host (env ex_blurring) \<lparr>oid = 0, node_key = ''a'', node_text = [0x68]\<rparr> \<and>
   \<not> propagated (onBlur ex_host (ex_event\<lparr>relatedTarget := Some 6\<rparr>) ex_blurring)"
  by code_simp

subsection \<open>onKeyDown\<close>

text \<open>
  C9, as amended. While not read-only and not composing, \<^verbatim>\<open>onKeyDown\<close> calls
  \<^verbatim>\<open>preventDefault\<close> exactly when the platform is not iOS and the event is
  classified as one of the twelve hotkeys, and it calls the continuation. While
  composing it never calls the continuation, and it prevents the default exactly when
  the editor is not read-only and the key is a compose key. While read-only it does
  nothing.
\<close>

theorem onKeyDown_prevents_hotkeys:
  "(\<not> readOnly s \<and> \<not> isComposing s \<longrightarrow>
      (defaultPrevented (onKeyDown h ev s) \<longleftrightarrow>
         \<not> IS_IOS h \<and> (\<exists>k \<in> set preventedHotkeys. Hotkeys h k ev)) \<and>
      propagated (onKeyDown h ev s)) \<and>
   (isComposing s \<longrightarrow>
      \<not> propagated (onKeyDown h ev s) \<and>
      (defaultPrevented (onKeyDown h ev s) \<longleftrightarrow> \<not> readOnly s \<and> Hotkeys h IsCompose ev)) \<and>
   (readOnly s \<longrightarrow> onKeyDown h ev s = returns s)"
  by (auto simp add: onKeyDown_def Let_def outcome_defs preventedHotkeys_def)

theorem onKeyDown_prevents_hotkeys_witness:
  "\<not> readOnly ex_idle \<and> \<not> isComposing ex_idle \<and> \<not> IS_IOS ex_host \<and>
   IsBold \<in> set preventedHotkeys \<and> Hotkeys ex_host IsBold ex_bold \<and>
   defaultPrevented (onKeyDown ex_host ex_bold ex_idle) \<and>
   propagated (onKeyDown ex_host ex_bold ex_idle) \<and>
   isComposing ex_composing \<and>
   \<not> propagated (onKeyDown ex_host ex_bold ex_composing) \<and>
   \<not> defaultPrevented (onKeyDown ex_host ex_bold ex_composing)"
proof -
  have idle: "\<not> readOnly ex_idle \<and> \<not> isComposing ex_idle"
    by (simp add: ex_idle_def)
  have composing: "isComposing ex_composing \<and> \<not> readOnly ex_composing"
    by (simp add: ex_composing_def ex_pending_def ex_idle_def)
  have desktop: "\<not> IS_IOS ex_host"
    by (simp add: ex_host_def)
  have listed: "IsBold \<in> set preventedHotkeys"
    by (simp add: preventedHotkeys_def)
  have bold: "Hotkeys ex_host IsBold ex_bold"
    by (simp add: ex_host_def ex_bold_def ex_event_def)
  have other: "\<not> Hotkeys ex_host IsCompose ex_bold"
    by (simp add: ex_host_def ex_bold_def ex_event_def)
  from onKeyDown_prevents_hotkeys [of ex_idle ex_host ex_bold] idle desktop listed bold
  have "defaultPrevented (onKeyDown ex_host ex_bold ex_idle) \<and>
      propagated (onKeyDown ex_host ex_bold ex_idle)"
    by blast
  moreover from onKeyDown_prevents_hotkeys [of ex_composing ex_host ex_bold] composing other
  have "\<not> propagated (onKeyDown ex_host ex_bold ex_composing) \<and>
      \<not> defaultPrevented (onKeyDown ex_host ex_bold ex_composing)"
    by blast
  ultimately show ?thesis using idle composing desktop listed bold by simp
qed

text \<open>
  The claim as first stated fails on iOS: the bold hotkey, outside a composition and
  not read-only, keeps its default.
\<close>

theorem onKeyDown_ios_counterexample:
  "\<not> readOnly ex_idle \<and> \<not> isComposing ex_idle \<and> Hotkeys ex_ios IsBold ex_bold \<and>
   \<not> defaultPrevented (onKeyDown ex_ios ex_bold ex_idle)"
  by (simp add: onKeyDown_def Let_def outcome_defs ex_idle_def ex_ios_def ex_host_def
        ex_bold_def ex_event_def)

subsection \<open>A flush that fails has consumed the operation\<close>

text \<open>
  C10. When the flush throws, an operation was pending and the slot is empty in the
  state the exception leaves behind, which is therefore not the state before; a second
  flush from there returns \<^verbatim>\<open>false\<close> and changes nothing.
\<close>

theorem flush_error_consumes_pending:
  assumes "snd (flushQueuedNativeOperations h s) = Inl e"
  shows "nextNativeOperation s \<noteq> None \<and>
         nextNativeOperation (fst (flushQueuedNativeOperations h s)) = None \<and>
         fst (flushQueuedNativeOperations h s) \<noteq> s \<and>
         flushQueuedNativeOperations h (fst (flushQueuedNativeOperations h s)) =
           (fst (flushQueuedNativeOperations h s), Inr (Bool False))"
proof -
  have pending: "nextNativeOperation s \<noteq> None"
  proof
    assume "nextNativeOperation s = None"
    then have "snd (flushQueuedNativeOperations h s) = Inr (Bool False)"
      by (simp add: flush_nothing)
    with assms show False by simp
  qed
  have cleared: "nextNativeOperation (fst (flushQueuedNativeOperations h s)) = None"
    by (rule flush_clears)
  from pending cleared have "fst (flushQueuedNativeOperations h s) \<noteq> s"
    by auto
  with pending cleared show ?thesis
    by (simp add: flush_nothing)
qed

theorem flush_error_consumes_pending_witness:
  "snd (flushQueuedNativeOperations ex_host ex_mismatch) =
     Inl (Error ''YOWIE WOWIE: slate span node mismatch'') \<and>
   nextNativeOperation ex_mismatch \<noteq> None \<and>
   nextNativeOperation (fst (flushQueuedNativeOperations ex_host ex_mismatch)) = None \<and>
   flushQueuedNativeOperations ex_host (fst (flushQueuedNativeOperations ex_host ex_mismatch)) =
     (fst (flushQueuedNativeOperations ex_host ex_mismatch), Inr (Bool False))"
proof -
  have failed: "snd (flushQueuedNativeOperations ex_host ex_mismatch) =
      Inl (Error ''YOWIE WOWIE: slate span node mismatch'')"
    by code_simp
  from flush_error_consumes_pending [OF failed] failed show ?thesis
    by simp
qed

end
